theory Spec2Isabelle
  imports Main
begin

section \<open>Values of the query documents\<close>

text \<open>
  A query batch is a JSON document decoded into Python values. The model keeps the
  dynamic typing of the source: one type of values, dictionaries as association lists
  with string keys (looked up with \<open>map_of\<close>, so the first binding of a key counts), and
  \<open>datetime.date\<close> objects, which macro expansion stores into expressions. JSON numbers
  are modelled as integers.
\<close>

datatype pyval =
    PNone
  | PBool bool
  | PInt int
  | PStr string
  | PDate int int int
  | PList "pyval list"
  | PDict "(string \<times> pyval) list"

text \<open>
  An exception message is a format template with the arguments of \<open>str.format\<close>;
  \<open>BadQueryException\<close> carries the arguments it was constructed with.
\<close>

datatype message = Fmt string "pyval list"

datatype error =
    BadQueryException "message list"
  | ValueError
  | TypeError
  | KeyError
  | AttributeError
  | IndexError
  | OverflowError
  | NotImplementedError message
  | StorageError string

definition bind_err :: "error + 'a \<Rightarrow> ('a \<Rightarrow> error + 'b) \<Rightarrow> error + 'b" where
  "bind_err m f = (case m of Inl e \<Rightarrow> Inl e | Inr x \<Rightarrow> f x)"

fun map_err :: "('a \<Rightarrow> error + 'b) \<Rightarrow> 'a list \<Rightarrow> error + 'b list" where
  "map_err f [] = Inr []"
| "map_err f (x # xs) =
     bind_err (f x) (\<lambda>y. bind_err (map_err f xs) (\<lambda>ys. Inr (y # ys)))"

subsection \<open>Python built-ins used by the query helper\<close>

definition py_truthy :: "pyval \<Rightarrow> bool" where
  "py_truthy v =
     (case v of
        PNone \<Rightarrow> False
      | PBool b \<Rightarrow> b
      | PInt n \<Rightarrow> n \<noteq> 0
      | PStr s \<Rightarrow> s \<noteq> []
      | PDate y m d \<Rightarrow> True
      | PList xs \<Rightarrow> xs \<noteq> []
      | PDict d \<Rightarrow> d \<noteq> [])"

definition is_dict :: "pyval \<Rightarrow> bool" where
  "is_dict v = (case v of PDict d \<Rightarrow> True | _ \<Rightarrow> False)"

text \<open>\<open>isinstance(v, collections.Hashable)\<close>: lists and dictionaries are not hashable.\<close>

definition is_hashable :: "pyval \<Rightarrow> bool" where
  "is_hashable v = (case v of PList xs \<Rightarrow> False | PDict d \<Rightarrow> False | _ \<Rightarrow> True)"

text \<open>\<open>d.get(k, default)\<close>: only dictionaries have the method.\<close>

definition py_get :: "pyval \<Rightarrow> string \<Rightarrow> pyval \<Rightarrow> error + pyval" where
  "py_get v k dflt =
     (case v of
        PDict d \<Rightarrow> (case map_of d k of Some x \<Rightarrow> Inr x | None \<Rightarrow> Inr dflt)
      | _ \<Rightarrow> Inl AttributeError)"

text \<open>\<open>v[k]\<close> with a string key: a missing key raises KeyError, and a value that is not
  a dictionary cannot be subscripted by a string.\<close>

definition py_getitem :: "pyval \<Rightarrow> string \<Rightarrow> error + pyval" where
  "py_getitem v k =
     (case v of
        PDict d \<Rightarrow> (case map_of d k of Some x \<Rightarrow> Inr x | None \<Rightarrow> Inl KeyError)
      | _ \<Rightarrow> Inl TypeError)"

text \<open>\<open>xs[i]\<close> on a Python list: a negative index counts from the end.\<close>

definition list_index :: "'a list \<Rightarrow> int \<Rightarrow> error + 'a" where
  "list_index xs i =
     (if 0 \<le> i \<and> i < int (length xs) then Inr (xs ! nat i)
      else if i < 0 \<and> - int (length xs) \<le> i then Inr (xs ! nat (int (length xs) + i))
      else Inl IndexError)"

definition py_index :: "pyval \<Rightarrow> pyval \<Rightarrow> error + pyval" where
  "py_index v i =
     (case v of
        PList xs \<Rightarrow>
          (case i of
             PInt n \<Rightarrow> list_index xs n
           | PBool b \<Rightarrow> list_index xs (if b then 1 else 0)
           | _ \<Rightarrow> Inl TypeError)
      | PStr s \<Rightarrow>
          (case i of
             PInt n \<Rightarrow> bind_err (list_index s n) (\<lambda>c. Inr (PStr [c]))
           | PBool b \<Rightarrow> bind_err (list_index s (if b then 1 else 0)) (\<lambda>c. Inr (PStr [c]))
           | _ \<Rightarrow> Inl TypeError)
      | PDict d \<Rightarrow>
          (case i of
             PStr k \<Rightarrow> py_getitem v k
           | PList xs \<Rightarrow> Inl TypeError
           | PDict e \<Rightarrow> Inl TypeError
           | _ \<Rightarrow> Inl KeyError)
      | _ \<Rightarrow> Inl TypeError)"

text \<open>\<open>d[k] = x\<close>: an existing key keeps its place, a new key is added.\<close>

fun dict_set :: "(string \<times> pyval) list \<Rightarrow> string \<Rightarrow> pyval \<Rightarrow> (string \<times> pyval) list" where
  "dict_set [] k x = [(k, x)]"
| "dict_set ((k', y) # d) k x = (if k' = k then (k, x) # d else (k', y) # dict_set d k x)"

definition set_item :: "pyval \<Rightarrow> string \<Rightarrow> pyval \<Rightarrow> pyval" where
  "set_item v k x = (case v of PDict d \<Rightarrow> PDict (dict_set d k x) | _ \<Rightarrow> v)"

text \<open>Iteration: a list yields its elements, a string its characters, a dictionary its
  keys (in the order of the association list).\<close>

definition py_iter :: "pyval \<Rightarrow> error + pyval list" where
  "py_iter v =
     (case v of
        PList xs \<Rightarrow> Inr xs
      | PStr s \<Rightarrow> Inr (map (\<lambda>c. PStr [c]) s)
      | PDict d \<Rightarrow> Inr (map (\<lambda>kv. PStr (fst kv)) d)
      | _ \<Rightarrow> Inl TypeError)"

text \<open>\<open>int(s)\<close> on a string, base 10, as Python 2 reads it: white space, an optional
  sign, white space again, at least one decimal digit, white space; anything else
  raises ValueError. (The suffix \<open>L\<close> that Python 2 accepts on a literal beyond the
  machine word is left out.)\<close>

definition is_space :: "char \<Rightarrow> bool" where
  "is_space c = (c \<in> set [CHR '' '', CHR 0x09, CHR 0x0A, CHR 0x0B, CHR 0x0C, CHR 0x0D])"

definition digit_of :: "char \<Rightarrow> int option" where
  "digit_of c = map_of (zip ''0123456789'' [0, 1, 2, 3, 4, 5, 6, 7, 8, 9]) c"

fun digits_value :: "int \<Rightarrow> string \<Rightarrow> int option" where
  "digits_value acc [] = Some acc"
| "digits_value acc (c # cs) =
     (case digit_of c of None \<Rightarrow> None | Some d \<Rightarrow> digits_value (10 * acc + d) cs)"

definition strip :: "string \<Rightarrow> string" where
  "strip s = rev (dropWhile is_space (rev (dropWhile is_space s)))"

definition int_of_str :: "string \<Rightarrow> error + int" where
  "int_of_str s =
     (let t = dropWhile is_space s;
          signed = (t \<noteq> [] \<and> (hd t = CHR ''-'' \<or> hd t = CHR ''+''));
          ds = strip (if signed then tl t else t)
      in if ds = [] then Inl ValueError
         else (case digits_value 0 ds of
                 None \<Rightarrow> Inl ValueError
               | Some n \<Rightarrow> Inr (if signed \<and> hd t = CHR ''-'' then - n else n)))"

text \<open>\<open>int(v)\<close>: numbers convert, strings are parsed (ValueError), and a value of any
  other type raises TypeError.\<close>

definition py_int :: "pyval \<Rightarrow> error + int" where
  "py_int v =
     (case v of
        PInt n \<Rightarrow> Inr n
      | PBool b \<Rightarrow> Inr (if b then 1 else 0)
      | PStr s \<Rightarrow> int_of_str s
      | _ \<Rightarrow> Inl TypeError)"

text \<open>\<open>s.split(sep)\<close> with a one-character separator.\<close>

fun split_on :: "char \<Rightarrow> string \<Rightarrow> string list" where
  "split_on sep [] = [[]]"
| "split_on sep (c # cs) =
     (if c = sep then [] # split_on sep cs
      else (case split_on sep cs of
              [] \<Rightarrow> [[c]]
            | p # ps \<Rightarrow> (c # p) # ps))"

text \<open>\<open>v.split("/")\<close>: only strings have the method.\<close>

definition py_split :: "pyval \<Rightarrow> error + string list" where
  "py_split v = (case v of PStr s \<Rightarrow> Inr (split_on CHR ''/'' s) | _ \<Rightarrow> Inl AttributeError)"

text \<open>\<open>datetime.date(year, month, day)\<close>: arguments outside the C int range raise
  OverflowError, a date outside the calendar raises ValueError.\<close>

definition is_leap :: "int \<Rightarrow> bool" where
  "is_leap y = (y mod 4 = 0 \<and> (y mod 100 \<noteq> 0 \<or> y mod 400 = 0))"

definition days_in_month :: "int \<Rightarrow> int \<Rightarrow> int" where
  "days_in_month y m =
     (if m = 2 then (if is_leap y then 29 else 28)
      else if m = 4 \<or> m = 6 \<or> m = 9 \<or> m = 11 then 30 else 31)"

definition fits_c_int :: "int \<Rightarrow> bool" where
  "fits_c_int n = (- (2 ^ 31) \<le> n \<and> n < 2 ^ 31)"

definition py_date :: "int \<Rightarrow> int \<Rightarrow> int \<Rightarrow> error + pyval" where
  "py_date y m d =
     (if \<not> (fits_c_int y \<and> fits_c_int m \<and> fits_c_int d) then Inl OverflowError
      else if 1 \<le> y \<and> y \<le> 9999 \<and> 1 \<le> m \<and> m \<le> 12 \<and> 1 \<le> d \<and> d \<le> days_in_month y m
      then Inr (PDate y m d)
      else Inl ValueError)"

text \<open>\<open>s.lower()\<close> on ASCII letters.\<close>

definition lower_char :: "char \<Rightarrow> char" where
  "lower_char c =
     (case map_of (zip ''ABCDEFGHIJKLMNOPQRSTUVWXYZ'' ''abcdefghijklmnopqrstuvwxyz'') c of
        None \<Rightarrow> c
      | Some l \<Rightarrow> l)"

definition py_lower :: "pyval \<Rightarrow> error + string" where
  "py_lower v = (case v of PStr s \<Rightarrow> Inr (map lower_char s) | _ \<Rightarrow> Inl AttributeError)"

text \<open>\<open>sub in s\<close> on strings.\<close>

fun is_prefix :: "string \<Rightarrow> string \<Rightarrow> bool" where
  "is_prefix [] s = True"
| "is_prefix (c # cs) [] = False"
| "is_prefix (c # cs) (d # ds) = (c = d \<and> is_prefix cs ds)"

fun str_contains :: "string \<Rightarrow> string \<Rightarrow> bool" where
  "str_contains sub [] = (sub = [])"
| "str_contains sub (c # cs) = (is_prefix sub (c # cs) \<or> str_contains sub cs)"

text \<open>\<open>k in v\<close> for a string \<open>k\<close>: key membership in a dictionary, substring test in a
  string, element test in a list; other values are not containers.\<close>

definition py_contains :: "pyval \<Rightarrow> string \<Rightarrow> error + bool" where
  "py_contains v k =
     (case v of
        PDict d \<Rightarrow> Inr (map_of d k \<noteq> None)
      | PStr s \<Rightarrow> Inr (str_contains k s)
      | PList xs \<Rightarrow> Inr (PStr k \<in> set xs)
      | _ \<Rightarrow> Inl TypeError)"

text \<open>Slicing \<open>xs[a:b]\<close>: a bound is an integer or None; a negative bound counts from
  the end, and bounds are clipped to the list.\<close>

definition slice_bound :: "nat \<Rightarrow> int option \<Rightarrow> nat \<Rightarrow> nat" where
  "slice_bound n b dflt =
     (case b of
        None \<Rightarrow> dflt
      | Some i \<Rightarrow> if i < 0 then nat (int n + i) else min n (nat i))"

definition py_slice :: "'a list \<Rightarrow> int option \<Rightarrow> int option \<Rightarrow> 'a list" where
  "py_slice xs a b =
     (let n = length xs; lo = slice_bound n a 0; hi = slice_bound n b n
      in take (hi - lo) (drop lo xs))"

definition slice_arg :: "pyval \<Rightarrow> error + int option" where
  "slice_arg v =
     (case v of
        PNone \<Rightarrow> Inr None
      | PInt n \<Rightarrow> Inr (Some n)
      | PBool b \<Rightarrow> Inr (Some (if b then 1 else 0))
      | _ \<Rightarrow> Inl TypeError)"

text \<open>Tuple unpacking \<open>a, b = v\<close>: exactly two elements, else ValueError.\<close>

definition unpack2 :: "pyval \<Rightarrow> error + (pyval \<times> pyval)" where
  "unpack2 v =
     bind_err (py_iter v)
       (\<lambda>xs. case xs of [a, b] \<Rightarrow> Inr (a, b) | _ \<Rightarrow> Inl ValueError)"

section \<open>Stored objects and pagination\<close>

record obj =
  obj_type :: string
  obj_id :: int

text \<open>\<open>_get_objects\<close> returns a Python list of objects, or \<open>set()\<close> when the query
  has no expression. A set cannot be sliced.\<close>

datatype objects = ObjList "obj list" | EmptySet

definition objects_iter :: "objects \<Rightarrow> obj list" where
  "objects_iter objs = (case objs of ObjList xs \<Rightarrow> xs | EmptySet \<Rightarrow> [])"

definition slice_objects :: "objects \<Rightarrow> pyval \<Rightarrow> pyval \<Rightarrow> error + objects" where
  "slice_objects objs from_v to_v =
     (case objs of
        EmptySet \<Rightarrow> Inl TypeError
      | ObjList xs \<Rightarrow>
          bind_err (slice_arg from_v)
            (\<lambda>a. bind_err (slice_arg to_v) (\<lambda>b. Inr (ObjList (py_slice xs a b)))))"

definition invalid_limit :: error where
  "invalid_limit =
     BadQueryException [Fmt (''Bad query: Invalid '' @ [CHR 0x27] @ ''limit'' @ [CHR 0x27] @ '' parameter.'') []]"

definition apply_limit :: "objects \<Rightarrow> pyval \<Rightarrow> error + objects" where
  "apply_limit objs limit =
     (if py_truthy limit then
        (case bind_err (unpack2 limit) (\<lambda>(from_v, to_v). slice_objects objs from_v to_v) of
           Inl e \<Rightarrow> Inl invalid_limit
         | Inr r \<Rightarrow> Inr r)
      else Inr objs)"

section \<open>Schema registry and external collaborators\<close>

text \<open>
  A compiled filter is an SQLAlchemy clause; the model keeps its syntax tree. The value
  \<open>None\<close> that \<open>_build_expression\<close> returns for a node without operator is \<open>None\<close> of
  the option type, so the operands of \<open>and_\<close> and \<open>or_\<close> are optional clauses.
  \<open>ExceptionObject\<close> is an exception instance handed back as if it were a clause.
\<close>

datatype column = Column string string

datatype sqlexpr =
    SqlAnd "sqlexpr option" "sqlexpr option"
  | SqlOr "sqlexpr option" "sqlexpr option"
  | SqlOrAll "sqlexpr list"
  | SqlNot sqlexpr
  | SqlEq column pyval
  | SqlLt column pyval
  | SqlGt column pyval
  | SqlILike column message
  | SqlIdIn string "int list"
  | SqlOpaque string "sqlexpr list"
  | ExceptionObject error

text \<open>What \<open>getattr(object_class, key, None)\<close> finds: a plain attribute, or a
  relationship to a titled model, to Person, or to another model (named).\<close>

datatype attr_kind = SimpleAttr | RelTitled | RelPerson | RelOther string

text \<open>A similarity query is the list of its rows \<open>(id, weight)\<close>; \<open>flask.g\<close> holds
  the query of the last \<open>similar\<close> filter, if any.\<close>

type_synonym similar_query = "(int \<times> int) list"

type_synonym flask_g = "similar_query option"

record object_class =
  cls_name :: string
  cls_getattr :: "string \<Rightarrow> attr_kind option"
  get_similar_objects_query :: "(pyval \<Rightarrow> string list \<Rightarrow> error + similar_query) option"

text \<open>A custom predicate builder of the alias map is called with the comparison
  closure.\<close>

type_synonym filter_by = "(column \<Rightarrow> error + sqlexpr) \<Rightarrow> error + sqlexpr"

datatype join_target = JoinSimilar similar_query | JoinAlias string

datatype order_key =
    OrderWeight
  | OrderTitle string
  | OrderPersonNameOrEmail string
  | OrderAttr string

record sql_query =
  q_class :: string
  q_filter :: "sqlexpr option"
  q_joins :: "join_target list"
  q_order :: "(order_key \<times> bool) list"

text \<open>
  The collaborators that are not part of the query helper: the importable classes
  (\<open>object_map\<close>), the alias map that \<open>_set_attr_name_map\<close> builds for a class (by
  class name), the storage lookup of slugs, \<open>RelationshipHelper.get_ids_related_to\<close>,
  the execution of a query by the database, and the two permission checks.
\<close>

record env =
  object_map :: "string \<Rightarrow> object_class option"
  attr_name_map :: "string \<Rightarrow> string \<Rightarrow> (string \<times> filter_by option) option"
  lookup_by_slug :: "object_class \<Rightarrow> pyval \<Rightarrow> error + int list"
  get_ids_related_to :: "string \<Rightarrow> pyval \<Rightarrow> pyval \<Rightarrow> error + int list"
  db_execute :: "sql_query \<Rightarrow> error + obj list"
  is_allowed_read_for :: "obj \<Rightarrow> bool"
  is_allowed_update_for :: "obj \<Rightarrow> bool"

text \<open>\<open>self.object_map[name]\<close>: an unhashable key raises TypeError, an unknown one
  KeyError.\<close>

definition object_map_getitem :: "env \<Rightarrow> pyval \<Rightarrow> error + object_class" where
  "object_map_getitem e name =
     (case name of
        PStr n \<Rightarrow> (case object_map e n of Some c \<Rightarrow> Inr c | None \<Rightarrow> Inl KeyError)
      | PList xs \<Rightarrow> Inl TypeError
      | PDict d \<Rightarrow> Inl TypeError
      | _ \<Rightarrow> Inl KeyError)"

text \<open>\<open>self.attr_name_map[object_class].get(key, (key, None))\<close>\<close>

definition alias_get :: "env \<Rightarrow> object_class \<Rightarrow> string \<Rightarrow> string \<times> filter_by option" where
  "alias_get e cls key =
     (case attr_name_map e (cls_name cls) key of Some kf \<Rightarrow> kf | None \<Rightarrow> (key, None))"

section \<open>Query sanitizer\<close>

definition slugs_to_ids :: "env \<Rightarrow> pyval \<Rightarrow> pyval \<Rightarrow> error + int list" where
  "slugs_to_ids e object_name slugs =
     (case object_name of
        PStr n \<Rightarrow> (case object_map e n of None \<Rightarrow> Inr [] | Some c \<Rightarrow> lookup_by_slug e c slugs)
      | PList xs \<Rightarrow> Inl TypeError
      | PDict d \<Rightarrow> Inl TypeError
      | _ \<Rightarrow> Inr [])"

definition invalid_relevant :: "pyval \<Rightarrow> error" where
  "invalid_relevant object_name =
     BadQueryException [Fmt ''Invalid relevant filter for {}'' [object_name]]"

text \<open>The part of \<open>_clean_filters\<close> that works on one node: slugs are resolved and
  appended to \<open>ids\<close>, then every entry of \<open>ids\<close> goes through \<open>int\<close>. Only ValueError
  is handled.\<close>

definition extend_ids :: "env \<Rightarrow> pyval \<Rightarrow> pyval \<Rightarrow> error + pyval" where
  "extend_ids e expression slugs =
     bind_err (py_get expression ''ids'' (PList []))
       (\<lambda>ids. case ids of
           PList xs \<Rightarrow>
             bind_err (py_getitem expression ''object_name'')
               (\<lambda>object_name. bind_err (slugs_to_ids e object_name slugs)
                 (\<lambda>new. Inr (set_item expression ''ids'' (PList (xs @ map PInt new)))))
         | _ \<Rightarrow> Inl AttributeError)"

definition coerce_ids :: "pyval \<Rightarrow> error + pyval" where
  "coerce_ids expression =
     (case bind_err (py_get expression ''ids'' (PList []))
             (\<lambda>ids. bind_err (py_iter ids) (map_err py_int)) of
        Inr ns \<Rightarrow> Inr (set_item expression ''ids'' (PList (map PInt ns)))
      | Inl ValueError \<Rightarrow>
          bind_err (py_get expression ''op'' (PDict []))
            (\<lambda>opv. bind_err (py_get opv ''name'' (PStr []))
              (\<lambda>name. if name = PStr ''relevant''
                 then bind_err (py_get expression ''object_name'' (PStr []))
                        (\<lambda>object_name. Inl (invalid_relevant object_name))
                 else Inl ValueError))
      | Inl err \<Rightarrow> Inl err)"

definition clean_node :: "env \<Rightarrow> pyval \<Rightarrow> error + pyval" where
  "clean_node e expression =
     bind_err (py_get expression ''slugs'' PNone)
       (\<lambda>slugs. bind_err (if py_truthy slugs then extend_ids e expression slugs
                           else Inr expression)
          coerce_ids)"

text \<open>A child that was cleaned in place is seen through its parent: the functional
  model stores the cleaned child back under its key.\<close>

definition store_back :: "pyval \<Rightarrow> string \<Rightarrow> pyval \<Rightarrow> pyval" where
  "store_back parent k child =
     (case parent of
        PDict d \<Rightarrow> (if map_of d k = None then parent else PDict (dict_set d k child))
      | _ \<Rightarrow> parent)"

lemma bind_err_cong [fundef_cong]:
  "m = m' \<Longrightarrow> (\<And>x. m' = Inr x \<Longrightarrow> f x = f' x) \<Longrightarrow> bind_err m f = bind_err m' f'"
  by (auto simp: bind_err_def split: sum.splits)

lemma map_of_size: "map_of d k = Some v \<Longrightarrow> size v < size (PDict d)"
  by (induction d) (auto split: if_splits)

lemma py_getitem_size: "py_getitem v k = Inr x \<Longrightarrow> size x < size v"
  by (auto simp: py_getitem_def dest!: map_of_size split: pyval.splits option.splits)

lemma map_of_dict_set: "map_of (dict_set d k x) k' = (if k' = k then Some x else map_of d k')"
  by (induction d) auto

lemma py_get_set_item_other:
  "k' \<noteq> k \<Longrightarrow> py_get (set_item v k x) k' dflt = py_get v k' dflt"
  by (auto simp: py_get_def set_item_def map_of_dict_set split: pyval.splits)

lemma extend_ids_get:
  "extend_ids e x slugs = Inr y \<Longrightarrow> k \<noteq> ''ids'' \<Longrightarrow> py_get y k dflt = py_get x k dflt"
  by (auto simp: extend_ids_def bind_err_def py_get_set_item_other
      split: sum.splits pyval.splits)

lemma coerce_ids_get:
  "coerce_ids x = Inr y \<Longrightarrow> k \<noteq> ''ids'' \<Longrightarrow> py_get y k dflt = py_get x k dflt"
  by (auto simp: coerce_ids_def bind_err_def py_get_set_item_other
      split: sum.splits error.splits if_splits)

lemma clean_node_get:
  "clean_node e x = Inr y \<Longrightarrow> k \<noteq> ''ids'' \<Longrightarrow> py_get y k dflt = py_get x k dflt"
  by (auto simp: clean_node_def bind_err_def extend_ids_get coerce_ids_get
      split: sum.splits if_splits)

lemma py_get_child_size:
  "py_get v k PNone = Inr x \<Longrightarrow> is_dict v \<Longrightarrow> size x < size v"
  by (auto simp: py_get_def is_dict_def dest!: map_of_size split: pyval.splits option.splits)

function clean_filters :: "env \<Rightarrow> pyval \<Rightarrow> error + pyval" where
  "clean_filters e expression =
     (if \<not> py_truthy expression \<or> \<not> is_dict expression then Inr expression
      else
        bind_err (clean_node e expression)
          (\<lambda>cleaned. bind_err (py_get cleaned ''left'' PNone)
            (\<lambda>left. bind_err (clean_filters e left)
              (\<lambda>left'. bind_err (py_get cleaned ''right'' PNone)
                (\<lambda>right. bind_err (clean_filters e right)
                  (\<lambda>right'. Inr (store_back (store_back cleaned ''left'' left')
                                  ''right'' right')))))))"
  by pat_completeness auto
termination
proof (relation "measure (\<lambda>(e, x). size x)")
  show "wf (measure (\<lambda>(e, x). size x))" by simp
next
  fix e expression cleaned left
  assume "\<not> (\<not> py_truthy expression \<or> \<not> is_dict expression)"
    and "clean_node e expression = Inr cleaned"
    and "py_get cleaned ''left'' PNone = Inr left"
  then show "((e, left), (e, expression)) \<in> measure (\<lambda>(e, x). size x)"
    using clean_node_get [of e expression cleaned "''left''" PNone]
    by (simp add: py_get_child_size)
next
  fix e expression cleaned left left' right
  assume "\<not> (\<not> py_truthy expression \<or> \<not> is_dict expression)"
    and "clean_node e expression = Inr cleaned"
    and "py_get cleaned ''right'' PNone = Inr right"
  then show "((e, right), (e, expression)) \<in> measure (\<lambda>(e, x). size x)"
    using clean_node_get [of e expression cleaned "''right''" PNone]
    by (simp add: py_get_child_size)
qed

subsection \<open>Macro expansion of task dates\<close>

function expression_keys :: "pyval \<Rightarrow> error + pyval list" where
  "expression_keys exp =
     bind_err (py_get exp ''op'' (PDict []))
       (\<lambda>opv. bind_err (py_get opv ''name'' PNone)
         (\<lambda>operator.
            if operator = PStr ''AND'' \<or> operator = PStr ''OR'' then
              bind_err (py_getitem exp ''left'')
                (\<lambda>left. bind_err (expression_keys left)
                  (\<lambda>ks. bind_err (py_getitem exp ''right'')
                    (\<lambda>right. bind_err (expression_keys right)
                      (\<lambda>ks'. Inr (ks @ ks')))))
            else
              bind_err (py_get exp ''left'' PNone)
                (\<lambda>left. if left \<noteq> PNone \<and> is_hashable left then Inr [left] else Inr [])))"
  by pat_completeness auto
termination
  by (relation "measure size") (auto dest: py_getitem_size)

definition date_numbers :: error where
  "date_numbers = BadQueryException [Fmt ''Date must consist of numbers'' []]"

definition date_forms :: "string \<Rightarrow> error" where
  "date_forms key =
     BadQueryException
       [Fmt ''Field {} should be a date of one of the following forms: DD, MM/DD, MM/DD/YYYY''
          [PStr key]]"

text \<open>The rewriting of one leaf whose left operand is the key \<open>start\<close> or \<open>end\<close>.
  With three parts the conversion to numbers is guarded, the construction of the date
  is not.\<close>

definition expand_leaf :: "pyval \<Rightarrow> pyval \<Rightarrow> string \<Rightarrow> error + pyval" where
  "expand_leaf exp operator key =
     bind_err (py_getitem exp ''right'')
       (\<lambda>right. bind_err (py_split right)
         (\<lambda>parts. case parts of
            [p1, p2, p3] \<Rightarrow>
              (case map_err int_of_str [p1, p2, p3] of
                 Inr [month, day, year] \<Rightarrow>
                   bind_err (py_date year month day)
                     (\<lambda>d. Inr (set_item (set_item exp ''left'' (PStr (key @ ''_date'')))
                                  ''right'' d))
               | _ \<Rightarrow> Inl date_numbers)
          | [month, day] \<Rightarrow>
              Inr (set_item
                    (set_item
                      (set_item exp ''op'' (PDict [(''name'', PStr ''AND'')]))
                      ''left''
                      (PDict [(''op'', PDict [(''name'', operator)]),
                              (''left'', PStr (''relative_'' @ key @ ''_month'')),
                              (''right'', PStr month)]))
                    ''right''
                    (PDict [(''op'', PDict [(''name'', operator)]),
                            (''left'', PStr (''relative_'' @ key @ ''_day'')),
                            (''right'', PStr day)]))
          | [day] \<Rightarrow> Inr (set_item exp ''left'' (PStr (''relative_'' @ key @ ''_day'')))
          | _ \<Rightarrow> Inl (date_forms key)))"

function expand_task_dates :: "pyval \<Rightarrow> error + pyval" where
  "expand_task_dates exp =
     (if \<not> is_dict exp then Inr exp
      else
        bind_err (py_contains exp ''op'')
          (\<lambda>has_op.
             if \<not> has_op then Inr exp
             else
               bind_err (py_getitem exp ''op'')
                 (\<lambda>opv. bind_err (py_getitem opv ''name'')
                   (\<lambda>operator.
                      if operator = PStr ''AND'' \<or> operator = PStr ''OR'' then
                        bind_err (py_getitem exp ''left'')
                          (\<lambda>left. bind_err (expand_task_dates left)
                            (\<lambda>left'. bind_err (py_getitem exp ''right'')
                              (\<lambda>right. bind_err (expand_task_dates right)
                                (\<lambda>right'. Inr (set_item (set_item exp ''left'' left')
                                                ''right'' right')))))
                      else
                        bind_err (py_getitem exp ''left'')
                          (\<lambda>left. case left of
                              PStr key \<Rightarrow>
                                if key = ''start'' \<or> key = ''end''
                                then expand_leaf exp operator key
                                else Inr exp
                            | _ \<Rightarrow> Inr exp)))))"
  by pat_completeness auto
termination
  by (relation "measure size") (auto dest: py_getitem_size)

definition macro_expand_object_query :: "pyval \<Rightarrow> error + pyval" where
  "macro_expand_object_query object_query =
     bind_err (py_getitem object_query ''object_name'')
       (\<lambda>object_name.
          if object_name = PStr ''TaskGroupTask'' then
            bind_err (py_get object_query ''filters'' PNone)
              (\<lambda>filters.
                 if filters \<noteq> PNone then
                   bind_err (py_getitem filters ''expression'')
                     (\<lambda>exp. bind_err (expression_keys exp)
                       (\<lambda>keys.
                          if PStr ''start'' \<in> set keys \<or> PStr ''end'' \<in> set keys then
                            bind_err (expand_task_dates exp)
                              (\<lambda>exp'. Inr (set_item object_query ''filters''
                                             (set_item filters ''expression'' exp')))
                          else Inr object_query))
                 else Inr object_query)
          else Inr object_query)"

text \<open>\<open>_clean_query\<close>: every object query is cleaned and expanded in place, in batch
  order; the first error aborts.\<close>

definition clean_object_query :: "env \<Rightarrow> pyval \<Rightarrow> error + pyval" where
  "clean_object_query e object_query =
     bind_err (py_get object_query ''filters'' (PDict []))
       (\<lambda>filters. bind_err (py_get filters ''expression'' PNone)
         (\<lambda>expression. bind_err (clean_filters e expression)
           (\<lambda>expression'.
              macro_expand_object_query
                (if expression' = expression then object_query
                 else set_item object_query ''filters''
                        (set_item filters ''expression'' expression')))))"

definition clean_query :: "env \<Rightarrow> pyval list \<Rightarrow> error + pyval list" where
  "clean_query e query = map_err (clean_object_query e) query"

section \<open>Expression compiler\<close>

definition squote :: string where
  "squote = [CHR 0x27]"

definition dquote :: string where
  "dquote = [CHR 0x22]"

definition expects_date :: "pyval \<Rightarrow> error" where
  "expects_date o_key =
     BadQueryException
       [Fmt (''Field '' @ dquote @ ''{}'' @ dquote @ '' expects a MM/DD/YYYY date'') [o_key]]"

text \<open>The guarded block of \<open>autocast\<close>: the three parts are converted to numbers and
  the date is constructed; the caller turns every exception into a bad query.\<close>

definition parse_month_day_year :: "pyval \<Rightarrow> error + pyval" where
  "parse_month_day_year v =
     bind_err (py_split v)
       (\<lambda>parts. bind_err (map_err int_of_str parts)
         (\<lambda>nums. case nums of
            [month, day, year] \<Rightarrow> py_date year month day
          | _ \<Rightarrow> Inl ValueError))"

definition autocast :: "env \<Rightarrow> object_class \<Rightarrow> pyval \<Rightarrow> pyval \<Rightarrow> error + pyval" where
  "autocast e cls o_key v =
     (case o_key of
        PStr k \<Rightarrow>
          (let key = fst (alias_get e cls k) in
             if (str_contains ''date'' key \<and> \<not> str_contains ''relative'' key)
                \<or> key = ''end_date'' \<or> key = ''start_date''
             then (case v of
                     PDate y m d \<Rightarrow> Inr v
                   | _ \<Rightarrow> (case parse_month_day_year v of
                             Inr d \<Rightarrow> Inr d
                           | Inl err \<Rightarrow> Inl (expects_date o_key)))
             else Inr v)
      | _ \<Rightarrow> Inr v)"

text \<open>\<open>relevant\<close>: \<open>query\<close> is the leaf itself, or, for the object name
  \<open>__previous__\<close>, the entry of the batch at the index given by the first id of the
  leaf; its \<open>object_name\<close> and \<open>ids\<close> go to \<open>get_ids_related_to\<close>.\<close>

definition relevant :: "env \<Rightarrow> pyval list \<Rightarrow> pyval \<Rightarrow> object_class \<Rightarrow> error + sqlexpr" where
  "relevant e query exp cls =
     bind_err (py_getitem exp ''object_name'')
       (\<lambda>object_name.
          bind_err (if object_name = PStr ''__previous__''
                    then bind_err (py_getitem exp ''ids'')
                           (\<lambda>ids. bind_err (py_index ids (PInt 0))
                             (\<lambda>i. py_index (PList query) i))
                    else Inr exp)
            (\<lambda>q. bind_err (py_getitem q ''object_name'')
              (\<lambda>target_name. bind_err (py_getitem q ''ids'')
                (\<lambda>target_ids.
                   bind_err (get_ids_related_to e (cls_name cls) target_name target_ids)
                     (\<lambda>ids. Inr (SqlIdIn (cls_name cls) ids))))))"

definition no_similarity_weights :: "string \<Rightarrow> error" where
  "no_similarity_weights name =
     BadQueryException
       [Fmt ''{} does not define weights to count relationships similarity'' [PStr name]]"

text \<open>\<open>similar\<close>: for a class without \<open>get_similar_objects_query\<close> the exception is
  constructed and returned, not raised; otherwise the similarity query is stored in
  \<open>flask.g\<close> and executed.\<close>

definition similar ::
  "env \<Rightarrow> flask_g \<Rightarrow> pyval \<Rightarrow> object_class \<Rightarrow> error + (sqlexpr option \<times> flask_g)" where
  "similar e g exp cls =
     bind_err (py_getitem exp ''object_name'')
       (\<lambda>object_name. bind_err (object_map_getitem e object_name)
         (\<lambda>similar_class.
            case get_similar_objects_query similar_class of
              None \<Rightarrow>
                Inr (Some (ExceptionObject (no_similarity_weights (cls_name similar_class))), g)
            | Some contract \<Rightarrow>
                bind_err (py_getitem exp ''id'')
                  (\<lambda>seed. bind_err (contract seed [cls_name cls])
                    (\<lambda>similar_objects_query.
                       Inr (Some (SqlIdIn (cls_name cls) (map fst similar_objects_query)),
                            Some similar_objects_query)))))"

definition unknown :: "pyval \<Rightarrow> error" where
  "unknown name =
     BadQueryException [Fmt (''Unknown operator '' @ dquote @ ''{}'' @ dquote) [name]]"

definition no_attribute :: "string \<Rightarrow> string \<Rightarrow> error" where
  "no_attribute name key =
     BadQueryException
       [Fmt (''Bad query: object '' @ squote @ ''{}'' @ squote @ '' does not have attribute ''
             @ squote @ ''{}'' @ squote @ ''.'')
          [PStr name, PStr key]]"

definition with_key ::
  "env \<Rightarrow> object_class \<Rightarrow> pyval \<Rightarrow> (column \<Rightarrow> error + sqlexpr) \<Rightarrow> error + sqlexpr" where
  "with_key e cls key_v p =
     bind_err (py_lower key_v)
       (\<lambda>key. case alias_get e cls key of
          (key', Some filter_by) \<Rightarrow> filter_by p
        | (key', None) \<Rightarrow>
            (case cls_getattr cls key' of
               None \<Rightarrow> Inl (no_attribute (cls_name cls) key')
             | Some attr \<Rightarrow> p (Column (cls_name cls) key')))"

definition with_left ::
  "env \<Rightarrow> object_class \<Rightarrow> pyval \<Rightarrow> (column \<Rightarrow> error + sqlexpr) \<Rightarrow> error + sqlexpr" where
  "with_left e cls exp p = bind_err (py_getitem exp ''left'') (\<lambda>key. with_key e cls key p)"

definition rhs :: "env \<Rightarrow> object_class \<Rightarrow> pyval \<Rightarrow> error + pyval" where
  "rhs e cls exp =
     bind_err (py_getitem exp ''left'')
       (\<lambda>left. bind_err (py_getitem exp ''right'') (\<lambda>right. autocast e cls left right))"

fun text_search_fields ::
  "env \<Rightarrow> object_class \<Rightarrow> message \<Rightarrow> pyval list \<Rightarrow> error + sqlexpr list" where
  "text_search_fields e cls text [] = Inr []"
| "text_search_fields e cls text (field # rest) =
     (if \<not> is_hashable field then Inl TypeError
      else if (case field of PStr k \<Rightarrow> attr_name_map e (cls_name cls) k \<noteq> None | _ \<Rightarrow> False)
      then bind_err (with_key e cls field (\<lambda>f. Inr (SqlILike f text)))
             (\<lambda>c. bind_err (text_search_fields e cls text rest) (\<lambda>cs. Inr (c # cs)))
      else text_search_fields e cls text rest)"

definition text_search :: "env \<Rightarrow> pyval \<Rightarrow> object_class \<Rightarrow> pyval \<Rightarrow> error + sqlexpr" where
  "text_search e exp cls search_fields =
     bind_err (py_getitem exp ''text'')
       (\<lambda>t. bind_err (py_iter search_fields)
         (\<lambda>fs. bind_err (text_search_fields e cls (Fmt ''%{}%'' [t]) fs)
           (\<lambda>cs. Inr (SqlOrAll cs))))"

text \<open>The operators of the table \<open>ops\<close> other than \<open>AND\<close> and \<open>OR\<close>; a name that is
  not in the table falls to \<open>unknown\<close>.\<close>

definition build_leaf ::
  "env \<Rightarrow> pyval list \<Rightarrow> flask_g \<Rightarrow> pyval \<Rightarrow> object_class \<Rightarrow> pyval \<Rightarrow> pyval
   \<Rightarrow> error + (sqlexpr option \<times> flask_g)" where
  "build_leaf e query g exp cls search_fields name =
     (let clause = (\<lambda>m. bind_err m (\<lambda>c. Inr (Some c, g)));
          eq = (\<lambda>l. bind_err (rhs e cls exp) (\<lambda>v. Inr (SqlEq l v)));
          ilike = (\<lambda>l. bind_err (rhs e cls exp) (\<lambda>v. Inr (SqlILike l (Fmt ''%{}%'' [v]))))
      in
        if name = PStr ''='' then clause (with_left e cls exp eq)
        else if name = PStr ''!='' then
          clause (bind_err (with_left e cls exp eq) (\<lambda>c. Inr (SqlNot c)))
        else if name = PStr ''~'' then clause (with_left e cls exp ilike)
        else if name = PStr ''!~'' then
          clause (bind_err (with_left e cls exp ilike) (\<lambda>c. Inr (SqlNot c)))
        else if name = PStr ''<'' then
          clause (with_left e cls exp (\<lambda>l. bind_err (rhs e cls exp) (\<lambda>v. Inr (SqlLt l v))))
        else if name = PStr ''>'' then
          clause (with_left e cls exp (\<lambda>l. bind_err (rhs e cls exp) (\<lambda>v. Inr (SqlGt l v))))
        else if name = PStr ''relevant'' then clause (relevant e query exp cls)
        else if name = PStr ''text_search'' then clause (text_search e exp cls search_fields)
        else if name = PStr ''similar'' then similar e g exp cls
        else Inl (unknown name))"

function build_expression ::
  "env \<Rightarrow> pyval list \<Rightarrow> flask_g \<Rightarrow> pyval \<Rightarrow> object_class \<Rightarrow> pyval
   \<Rightarrow> error + (sqlexpr option \<times> flask_g)" where
  "build_expression e query g exp cls search_fields =
     bind_err (py_contains exp ''op'')
       (\<lambda>has_op.
          if \<not> has_op then Inr (None, g)
          else
            bind_err (py_getitem exp ''op'')
              (\<lambda>opv. bind_err (py_getitem opv ''name'')
                (\<lambda>name.
                   if \<not> is_hashable name then Inl TypeError
                   else if name = PStr ''AND'' \<or> name = PStr ''OR'' then
                     bind_err (py_getitem exp ''left'')
                       (\<lambda>left. bind_err (build_expression e query g left cls search_fields)
                         (\<lambda>l. bind_err (py_getitem exp ''right'')
                           (\<lambda>right. bind_err (build_expression e query (snd l) right cls search_fields)
                             (\<lambda>r. Inr (Some (if name = PStr ''AND''
                                              then SqlAnd (fst l) (fst r)
                                              else SqlOr (fst l) (fst r)),
                                        snd r)))))
                   else build_leaf e query g exp cls search_fields name)))"
  by pat_completeness auto
termination
  by (relation "measure (\<lambda>(e, query, g, exp, cls, search_fields). size exp)")
    (auto dest: py_getitem_size)

section \<open>Ordering\<close>

definition no_similar_filter :: error where
  "no_similar_filter =
     BadQueryException
       [Fmt (''Can'' @ squote @ ''t order by '' @ squote @ ''__similarity__'' @ squote
             @ '' when no '') [],
        Fmt (squote @ ''similar'' @ squote @ '' filter was applied.'') []]"

definition model_has_no_attribute :: "string \<Rightarrow> string \<Rightarrow> error" where
  "model_has_no_attribute name key =
     BadQueryException
       [Fmt (''Model '' @ squote @ ''{model.__name__}'' @ squote @ '' does not have ''
             @ squote @ ''{key}'' @ squote @ '' attribute'')
          [PStr name, PStr key]]"

definition sorting_not_implemented :: "string \<Rightarrow> error" where
  "sorting_not_implemented related =
     NotImplementedError
       (Fmt ''Sorting by {model.__name__} is not implemented yet.'' [PStr related])"

definition join_and_order ::
  "env \<Rightarrow> flask_g \<Rightarrow> object_class \<Rightarrow> pyval
   \<Rightarrow> error + (join_target option \<times> (order_key \<times> bool))" where
  "join_and_order e g model clause =
     bind_err (py_getitem clause ''name'')
       (\<lambda>name. bind_err (py_lower name)
         (\<lambda>key.
            bind_err
              (if key = ''__similarity__'' then
                 (case g of
                    Some similar_objects_query \<Rightarrow>
                      Inr (Some (JoinSimilar similar_objects_query), OrderWeight)
                  | None \<Rightarrow> Inl no_similar_filter)
               else
                 (let key' = fst (alias_get e model key) in
                    case cls_getattr model key' of
                      None \<Rightarrow> Inl (model_has_no_attribute (cls_name model) key')
                    | Some SimpleAttr \<Rightarrow> Inr (None, OrderAttr key')
                    | Some RelTitled \<Rightarrow> Inr (Some (JoinAlias key'), OrderTitle key')
                    | Some RelPerson \<Rightarrow>
                        Inr (Some (JoinAlias key'), OrderPersonNameOrEmail key')
                    | Some (RelOther related) \<Rightarrow> Inl (sorting_not_implemented related)))
              (\<lambda>(join, order).
                 bind_err (py_get clause ''desc'' (PBool False))
                   (\<lambda>desc. Inr (join, (order, py_truthy desc))))))"

definition apply_order_by ::
  "env \<Rightarrow> flask_g \<Rightarrow> object_class \<Rightarrow> sql_query \<Rightarrow> pyval \<Rightarrow> error + sql_query" where
  "apply_order_by e g model q order_by =
     bind_err (py_iter order_by)
       (\<lambda>clauses. bind_err (map_err (join_and_order e g model) clauses)
         (\<lambda>jos. if jos = [] then Inl ValueError
                 else Inr (q\<lparr>q_joins := q_joins q @ List.map_filter fst jos,
                            q_order := q_order q @ map snd jos\<rparr>)))"

section \<open>Query orchestrator\<close>

text \<open>\<open>_get_objects\<close>: an absent expression gives \<open>set()\<close>; otherwise the expression is
  compiled, the query is filtered unless the compiled filter is None, ordered when
  \<open>order_by\<close> is given, executed, and the rows are filtered with the update check when
  \<open>permissions\<close> is the string \<open>update\<close> and with the read check otherwise.\<close>

definition permitted :: "env \<Rightarrow> pyval \<Rightarrow> obj list \<Rightarrow> obj list" where
  "permitted e requested_permissions rows =
     (if requested_permissions = PStr ''update''
      then filter (is_allowed_update_for e) rows
      else filter (is_allowed_read_for e) rows)"

definition ordered_query ::
  "env \<Rightarrow> flask_g \<Rightarrow> object_class \<Rightarrow> sqlexpr option \<Rightarrow> pyval \<Rightarrow> error + sql_query" where
  "ordered_query e g object_class filter_expression order_by =
     (let q = \<lparr>q_class = cls_name object_class, q_filter = filter_expression,
                q_joins = [], q_order = []\<rparr>
      in if py_truthy order_by then apply_order_by e g object_class q order_by else Inr q)"

definition get_objects ::
  "env \<Rightarrow> pyval list \<Rightarrow> flask_g \<Rightarrow> pyval \<Rightarrow> error + (objects \<times> flask_g)" where
  "get_objects e query g object_query =
     bind_err (py_getitem object_query ''object_name'')
       (\<lambda>object_name. bind_err (py_get object_query ''filters'' (PDict []))
         (\<lambda>filters. bind_err (py_get filters ''expression'' PNone)
           (\<lambda>expression.
              if expression = PNone then Inr (EmptySet, g)
              else
                bind_err (object_map_getitem e object_name)
                  (\<lambda>object_class. bind_err (py_get object_query ''fields'' (PList []))
                    (\<lambda>search_fields.
                       bind_err (build_expression e query g expression object_class search_fields)
                         (\<lambda>(filter_expression, g').
                            bind_err (py_get object_query ''order_by'' PNone)
                              (\<lambda>order_by.
                                 bind_err (ordered_query e g' object_class filter_expression order_by)
                                   (\<lambda>q. bind_err (py_get object_query ''permissions'' (PStr ''read''))
                                     (\<lambda>requested_permissions. bind_err (db_execute e q)
                                       (\<lambda>rows. Inr (ObjList (permitted e requested_permissions rows),
                                                     g')))))))))))"

text \<open>\<open>get_ids\<close>: the loop over the batch, by position. Each entry is resolved against
  the batch as it stands (earlier entries already carry their \<open>ids\<close>), paginated, and
  its \<open>ids\<close> are stored in place.\<close>

definition ids_of :: "objects \<Rightarrow> pyval" where
  "ids_of objs = PList (map (\<lambda>x. PInt (obj_id x)) (objects_iter objs))"

function get_ids_from :: "env \<Rightarrow> nat \<Rightarrow> flask_g \<Rightarrow> pyval list \<Rightarrow> error + pyval list" where
  "get_ids_from e i g query =
     (if i < length query then
        bind_err (get_objects e query g (query ! i))
          (\<lambda>(objs, g'). bind_err (py_get (query ! i) ''limit'' PNone)
            (\<lambda>limit. bind_err (apply_limit objs limit)
              (\<lambda>objs'. get_ids_from e (Suc i) g'
                          (query[i := set_item (query ! i) ''ids'' (ids_of objs')]))))
      else Inr query)"
  by pat_completeness auto
termination
  by (relation "measure (\<lambda>(e, i, g, query). length query - i)") auto

definition get_ids :: "env \<Rightarrow> flask_g \<Rightarrow> pyval list \<Rightarrow> error + pyval list" where
  "get_ids e g query = get_ids_from e 0 g query"

text \<open>The constructor: the batch is sanitized, then \<open>_set_attr_name_map\<close> looks every
  object name up in \<open>object_map\<close> (the alias maps it builds are those of the
  environment).\<close>

definition set_attr_name_map :: "env \<Rightarrow> pyval list \<Rightarrow> error + unit" where
  "set_attr_name_map e query =
     bind_err
       (map_err (\<lambda>object_query. bind_err (py_getitem object_query ''object_name'')
                                   (object_map_getitem e)) query)
       (\<lambda>classes. Inr ())"

definition query_helper_init :: "env \<Rightarrow> pyval list \<Rightarrow> error + pyval list" where
  "query_helper_init e query =
     bind_err (clean_query e query)
       (\<lambda>cleaned. bind_err (set_attr_name_map e cleaned) (\<lambda>u. Inr cleaned))"

text \<open>\<open>QueryHelper(query).get_ids()\<close>\<close>

definition resolve :: "env \<Rightarrow> flask_g \<Rightarrow> pyval list \<Rightarrow> error + pyval list" where
  "resolve e g query = bind_err (query_helper_init e query) (get_ids e g)"

section \<open>A small registry and store for concrete runs\<close>

text \<open>
  \<open>Facility\<close> follows \<open>ggrc/models/facility.py\<close>: the alias \<open>Facility URL\<close> of \<open>url\<close>,
  the dates of \<open>Timeboxed\<close>, and no \<open>get_similar_objects_query\<close>. \<open>Assessment\<close> stands
  for a class that has the similarity contract. The store holds four facilities; the
  database answers a query without filter with all rows of the class and evaluates a
  membership filter on the identifier. A facility is related to the facilities of the
  given ids, and to nothing of another type.
\<close>

definition Facility :: object_class where
  "Facility =
     \<lparr>cls_name = ''Facility'',
      cls_getattr = (\<lambda>k. if k \<in> set [''id'', ''slug'', ''title'', ''url'', ''start_date'',
                                         ''end_date'']
                          then Some SimpleAttr else None),
      get_similar_objects_query = None\<rparr>"

definition TaskGroupTask :: object_class where
  "TaskGroupTask =
     \<lparr>cls_name = ''TaskGroupTask'',
      cls_getattr = (\<lambda>k. if k \<in> set [''id'', ''slug'', ''title'', ''start_date'', ''end_date'',
                                         ''relative_start_month'', ''relative_start_day'',
                                         ''relative_end_month'', ''relative_end_day'']
                          then Some SimpleAttr else None),
      get_similar_objects_query = None\<rparr>"

definition Assessment :: object_class where
  "Assessment =
     \<lparr>cls_name = ''Assessment'',
      cls_getattr = (\<lambda>k. if k \<in> set [''id'', ''slug'', ''title''] then Some SimpleAttr else None),
      get_similar_objects_query = Some (\<lambda>seed types. Inr [(2, 5), (4, 1)])\<rparr>"

definition facility :: "int \<Rightarrow> obj" where
  "facility i = \<lparr>obj_type = ''Facility'', obj_id = i\<rparr>"

definition example_rows :: "string \<Rightarrow> obj list" where
  "example_rows name =
     (if name = ''Facility'' then [facility 1, facility 2, facility 3, facility 4] else [])"

definition example_execute :: "sql_query \<Rightarrow> error + obj list" where
  "example_execute q =
     (case q_filter q of
        None \<Rightarrow> Inr (example_rows (q_class q))
      | Some (SqlIdIn name ids) \<Rightarrow>
          Inr (filter (\<lambda>x. obj_id x \<in> set ids) (example_rows (q_class q)))
      | Some clause \<Rightarrow> Inl (StorageError ''unsupported clause''))"

definition example_related :: "string \<Rightarrow> pyval \<Rightarrow> pyval \<Rightarrow> error + int list" where
  "example_related source target_name target_ids =
     (if source = ''Facility'' \<and> target_name = PStr ''Facility'' then
        (case target_ids of
           PList xs \<Rightarrow> map_err py_int xs
         | _ \<Rightarrow> Inl TypeError)
      else Inr [])"

definition example_env :: env where
  "example_env =
     \<lparr>object_map = [''Facility'' \<mapsto> Facility, ''TaskGroupTask'' \<mapsto> TaskGroupTask,
                    ''Assessment'' \<mapsto> Assessment],
      attr_name_map = (\<lambda>name. if name = ''Facility''
                               then [''facility url'' \<mapsto> (''url'', None)] else Map.empty),
      lookup_by_slug = (\<lambda>object_class slugs. Inr []),
      get_ids_related_to = example_related,
      db_execute = example_execute,
      is_allowed_read_for = (\<lambda>x. obj_id x \<noteq> 3),
      is_allowed_update_for = (\<lambda>x. obj_id x = 1)\<rparr>"

text \<open>The leaf \<open>{op: {name: similar}, object_name: Facility, id: 1}\<close>, compiled for a
  query of assessments.\<close>

definition similar_facility :: pyval where
  "similar_facility =
     PDict [(''op'', PDict [(''name'', PStr ''similar'')]),
            (''object_name'', PStr ''Facility''), (''id'', PInt 1)]"

text \<open>The comparison \<open>{op: {name: =}, left: start_date, right: 2/30/2020}\<close>.\<close>

definition start_date_feb_30 :: pyval where
  "start_date_feb_30 =
     PDict [(''op'', PDict [(''name'', PStr ''='')]),
            (''left'', PStr ''start_date''), (''right'', PStr ''2/30/2020'')]"

text \<open>The leaves of the examples, \<open>{op: {name: =}, left: key, right: s}\<close>, in a
  \<open>TaskGroupTask\<close> query.\<close>

definition task_leaf :: "string \<Rightarrow> string \<Rightarrow> pyval" where
  "task_leaf key s =
     PDict [(''op'', PDict [(''name'', PStr ''='')]), (''left'', PStr key), (''right'', PStr s)]"

definition task_query :: "pyval \<Rightarrow> pyval" where
  "task_query exp =
     PDict [(''object_name'', PStr ''TaskGroupTask''),
            (''filters'', PDict [(''expression'', exp)])]"

text \<open>A leaf \<open>{op: {name: operator}, object_name: Facility, ids: entries}\<close>.\<close>

definition ids_leaf :: "string \<Rightarrow> pyval list \<Rightarrow> pyval" where
  "ids_leaf operator entries =
     PDict [(''op'', PDict [(''name'', PStr operator)]), (''object_name'', PStr ''Facility''),
            (''ids'', PList entries)]"

text \<open>Object queries for facilities, with further keys.\<close>

definition facility_query :: "(string \<times> pyval) list \<Rightarrow> pyval" where
  "facility_query extra = PDict ((''object_name'', PStr ''Facility'') # extra)"

text \<open>The query for every facility (an expression without operator).\<close>

definition all_facilities :: "(string \<times> pyval) list \<Rightarrow> pyval" where
  "all_facilities extra =
     facility_query ((''filters'', PDict [(''expression'', PDict [])]) # extra)"

text \<open>A batch of three: every facility, paginated; the facilities relevant to the
  results of the first entry; and a query without filters.\<close>

definition previous_leaf :: "pyval list \<Rightarrow> pyval" where
  "previous_leaf ids =
     PDict [(''op'', PDict [(''name'', PStr ''relevant'')]),
            (''object_name'', PStr ''__previous__''), (''ids'', PList ids)]"

definition example_batch :: "pyval list" where
  "example_batch =
     [all_facilities [(''limit'', PList [PInt 1, PInt 3])],
      facility_query [(''filters'', PDict [(''expression'', previous_leaf [PInt 0])])],
      facility_query []]"

definition example_result :: "pyval list" where
  "example_result =
     [all_facilities [(''limit'', PList [PInt 1, PInt 3]), (''ids'', PList [PInt 2, PInt 4])],
      facility_query [(''filters'', PDict [(''expression'', previous_leaf [PInt 0])]),
                      (''ids'', PList [PInt 2, PInt 4])],
      facility_query [(''ids'', PList [])]]"

section \<open>Positions in an expression tree\<close>

text \<open>
  To speak of every leaf of an expression: a position is the list of turns from the
  root (\<open>True\<close> for the right operand), \<open>descend\<close> reads the subexpression at a position,
  and \<open>and_or_path\<close> says that every node above the position is an \<open>AND\<close> or \<open>OR\<close>
  node, so that the recursion of the sanitizer reaches it.
\<close>

definition is_and_or :: "pyval \<Rightarrow> bool" where
  "is_and_or exp =
     (case py_getitem exp ''op'' of
        Inr opv \<Rightarrow>
          (case py_getitem opv ''name'' of
             Inr operator \<Rightarrow> operator = PStr ''AND'' \<or> operator = PStr ''OR''
           | Inl err \<Rightarrow> False)
      | Inl err \<Rightarrow> False)"

fun descend :: "pyval \<Rightarrow> bool list \<Rightarrow> error + pyval" where
  "descend exp [] = Inr exp"
| "descend exp (right # path) =
     bind_err (py_getitem exp (if right then ''right'' else ''left''))
       (\<lambda>child. descend child path)"

fun and_or_path :: "pyval \<Rightarrow> bool list \<Rightarrow> bool" where
  "and_or_path exp [] = True"
| "and_or_path exp (right # path) =
     (is_and_or exp
      \<and> (case py_getitem exp (if right then ''right'' else ''left'') of
           Inr child \<Rightarrow> and_or_path child path
         | Inl err \<Rightarrow> False))"

text \<open>A disjunction of a comparison on the title and a comparison on \<open>end\<close>, and its
  expansion.\<close>

definition nested_dates :: pyval where
  "nested_dates =
     PDict [(''op'', PDict [(''name'', PStr ''OR'')]),
            (''left'', task_leaf ''title'' ''x''),
            (''right'', task_leaf ''end'' ''12/31/2021'')]"

definition nested_dates_expanded :: pyval where
  "nested_dates_expanded =
     PDict [(''op'', PDict [(''name'', PStr ''OR'')]),
            (''left'', task_leaf ''title'' ''x''),
            (''right'', PDict [(''op'', PDict [(''name'', PStr ''='')]),
                               (''left'', PStr ''end_date''),
                               (''right'', PDate 2021 12 31)])]"

section \<open>Pagination\<close>

lemma py_slice_nonneg:
  "0 \<le> a \<Longrightarrow> 0 \<le> b
   \<Longrightarrow> py_slice xs (Some a) (Some b) = take (nat b - nat a) (drop (nat a) xs)"
  by (auto simp: py_slice_def slice_bound_def Let_def min_def)

lemma apply_limit_pair:
  "apply_limit (ObjList rs) (PList [PInt a, PInt b])
   = Inr (ObjList (py_slice rs (Some a) (Some b)))"
  by (simp add: apply_limit_def py_truthy_def unpack2_def py_iter_def bind_err_def
      slice_objects_def slice_arg_def)

lemma apply_limit_falsy: "\<not> py_truthy limit \<Longrightarrow> apply_limit objs limit = Inr objs"
  by (simp add: apply_limit_def)

lemma apply_limit_not_pair:
  "py_truthy limit \<Longrightarrow> \<forall>x y. py_iter limit \<noteq> Inr [x, y]
   \<Longrightarrow> apply_limit objs limit = Inl invalid_limit"
  by (auto simp: apply_limit_def unpack2_def bind_err_def split: sum.splits list.splits)

lemma apply_limit_bad_bound:
  "py_truthy limit \<Longrightarrow> py_iter limit = Inr [x, y]
   \<Longrightarrow> slice_arg x = Inl TypeError \<or> slice_arg y = Inl TypeError
   \<Longrightarrow> apply_limit objs limit = Inl invalid_limit"
  by (auto simp: apply_limit_def unpack2_def bind_err_def slice_objects_def
      split: sum.splits objects.splits)

lemma py_slice_open_start:
  "0 \<le> b \<Longrightarrow> py_slice xs None (Some b) = take (nat b) xs"
  by (simp add: py_slice_def slice_bound_def Let_def min_def)

lemma py_slice_open_end:
  "0 \<le> a \<Longrightarrow> py_slice xs (Some a) None = drop (nat a) xs"
  by (simp add: py_slice_def slice_bound_def Let_def min_def)

lemma py_slice_open: "py_slice xs None None = xs"
  by (simp add: py_slice_def slice_bound_def Let_def)

lemma py_slice_from_end:
  "a < 0 \<Longrightarrow> py_slice xs (Some a) None = drop (nat (int (length xs) + a)) xs"
  by (simp add: py_slice_def slice_bound_def Let_def)

lemma py_slice_to_end:
  "b < 0 \<Longrightarrow> py_slice xs None (Some b) = take (nat (int (length xs) + b)) xs"
  by (simp add: py_slice_def slice_bound_def Let_def)

lemma apply_limit_bounds:
  "py_truthy limit \<Longrightarrow> py_iter limit = Inr [x, y] \<Longrightarrow> slice_arg x = Inr a
   \<Longrightarrow> slice_arg y = Inr b
   \<Longrightarrow> apply_limit (ObjList rs) limit = Inr (ObjList (py_slice rs a b))"
  by (simp add: apply_limit_def unpack2_def slice_objects_def bind_err_def)

text \<open>
  C7 (as amended). A truthy limit that unpacks into two bounds \<open>[from, to]\<close>, each an
  integer, a boolean (counted as 0 or 1) or null, returns the Python slice
  \<open>results[from:to]\<close> of a result list: for integer bounds that are not negative the
  half-open range of positions \<open>from \<le> i < to\<close>, in order; a null lower bound starts
  at the first position and a null upper bound ends after the last one; a negative
  bound counts from the end. A limit that is falsy (absent, null, or the empty list)
  leaves the results unchanged. A truthy limit fails with the bad-query error when it
  does not unpack into exactly two elements, or when one of its two elements is neither
  an integer, a boolean nor null.
\<close>

theorem apply_limit_slice:
  "apply_limit (ObjList rs) (PList [PInt a, PInt b])
     = Inr (ObjList (py_slice rs (Some a) (Some b)))
   \<and> (0 \<le> a \<and> 0 \<le> b
        \<longrightarrow> py_slice rs (Some a) (Some b) = take (nat b - nat a) (drop (nat a) rs))
   \<and> apply_limit (ObjList rs) (PList [PNone, PInt b]) = Inr (ObjList (py_slice rs None (Some b)))
   \<and> apply_limit (ObjList rs) (PList [PInt a, PNone]) = Inr (ObjList (py_slice rs (Some a) None))
   \<and> apply_limit (ObjList rs) (PList [PNone, PNone]) = Inr (ObjList rs)
   \<and> (0 \<le> b \<longrightarrow> py_slice rs None (Some b) = take (nat b) rs)
   \<and> (0 \<le> a \<longrightarrow> py_slice rs (Some a) None = drop (nat a) rs)
   \<and> (a < 0 \<longrightarrow> py_slice rs (Some a) None = drop (nat (int (length rs) + a)) rs)
   \<and> (b < 0 \<longrightarrow> py_slice rs None (Some b) = take (nat (int (length rs) + b)) rs)
   \<and> apply_limit (ObjList rs) (PList [PBool p, PBool q])
       = apply_limit (ObjList rs) (PList [PInt (if p then 1 else 0), PInt (if q then 1 else 0)])
   \<and> apply_limit (ObjList rs) (PList [PBool p, PInt b])
       = apply_limit (ObjList rs) (PList [PInt (if p then 1 else 0), PInt b])
   \<and> apply_limit (ObjList rs) (PList [PInt a, PBool q])
       = apply_limit (ObjList rs) (PList [PInt a, PInt (if q then 1 else 0)])
   \<and> apply_limit (ObjList rs) (PList [PBool p, PNone])
       = apply_limit (ObjList rs) (PList [PInt (if p then 1 else 0), PNone])
   \<and> apply_limit (ObjList rs) (PList [PNone, PBool q])
       = apply_limit (ObjList rs) (PList [PNone, PInt (if q then 1 else 0)])
   \<and> (\<not> py_truthy limit \<longrightarrow> apply_limit objs limit = Inr objs)
   \<and> (py_truthy limit \<and> (\<forall>x y. py_iter limit \<noteq> Inr [x, y])
        \<longrightarrow> apply_limit objs limit = Inl invalid_limit)
   \<and> (py_truthy limit \<and> py_iter limit = Inr [x, y]
        \<and> (\<forall>n. x \<noteq> PInt n) \<and> (\<forall>p. x \<noteq> PBool p) \<and> x \<noteq> PNone
        \<longrightarrow> apply_limit objs limit = Inl invalid_limit)
   \<and> (py_truthy limit \<and> py_iter limit = Inr [x, y]
        \<and> (\<forall>n. y \<noteq> PInt n) \<and> (\<forall>p. y \<noteq> PBool p) \<and> y \<noteq> PNone
        \<longrightarrow> apply_limit objs limit = Inl invalid_limit)"
proof -
  have lists: "py_truthy (PList [u, v])" "py_iter (PList [u, v]) = Inr [u, v]" for u v
    by (simp_all add: py_truthy_def py_iter_def)
  have bounds: "slice_arg PNone = Inr None" "slice_arg (PInt n) = Inr (Some n)"
    "slice_arg (PBool p) = Inr (Some (if p then 1 else 0))" for n p
    by (simp_all add: slice_arg_def)
  have pair: "slice_arg u = Inr a' \<Longrightarrow> slice_arg v = Inr b'
      \<Longrightarrow> apply_limit (ObjList rs) (PList [u, v]) = Inr (ObjList (py_slice rs a' b'))"
    for u v a' b'
    using lists by (rule apply_limit_bounds)
  have not_bound: "slice_arg v = Inl TypeError"
    if "\<forall>n. v \<noteq> PInt n" "\<forall>p. v \<noteq> PBool p" "v \<noteq> PNone" for v
    using that by (cases v) (auto simp: slice_arg_def)
  show ?thesis
  proof (intro conjI impI)
    show "apply_limit (ObjList rs) (PList [PInt a, PInt b])
          = Inr (ObjList (py_slice rs (Some a) (Some b)))"
      by (simp add: pair bounds)
    show "apply_limit (ObjList rs) (PList [PNone, PInt b])
          = Inr (ObjList (py_slice rs None (Some b)))"
      by (simp add: pair bounds)
    show "apply_limit (ObjList rs) (PList [PInt a, PNone])
          = Inr (ObjList (py_slice rs (Some a) None))"
      by (simp add: pair bounds)
    show "apply_limit (ObjList rs) (PList [PNone, PNone]) = Inr (ObjList rs)"
      by (simp add: pair bounds py_slice_open)
    show "apply_limit (ObjList rs) (PList [PBool p, PBool q])
       = apply_limit (ObjList rs) (PList [PInt (if p then 1 else 0), PInt (if q then 1 else 0)])"
      by (simp only: pair bounds)
    show "apply_limit (ObjList rs) (PList [PBool p, PInt b])
       = apply_limit (ObjList rs) (PList [PInt (if p then 1 else 0), PInt b])"
      by (simp only: pair bounds)
    show "apply_limit (ObjList rs) (PList [PInt a, PBool q])
       = apply_limit (ObjList rs) (PList [PInt a, PInt (if q then 1 else 0)])"
      by (simp only: pair bounds)
    show "apply_limit (ObjList rs) (PList [PBool p, PNone])
       = apply_limit (ObjList rs) (PList [PInt (if p then 1 else 0), PNone])"
      by (simp only: pair bounds)
    show "apply_limit (ObjList rs) (PList [PNone, PBool q])
       = apply_limit (ObjList rs) (PList [PNone, PInt (if q then 1 else 0)])"
      by (simp only: pair bounds)
  next
    assume "0 \<le> a \<and> 0 \<le> b"
    then show "py_slice rs (Some a) (Some b) = take (nat b - nat a) (drop (nat a) rs)"
      by (simp add: py_slice_nonneg)
  next
    assume "0 \<le> b"
    then show "py_slice rs None (Some b) = take (nat b) rs" by (rule py_slice_open_start)
  next
    assume "0 \<le> a"
    then show "py_slice rs (Some a) None = drop (nat a) rs" by (rule py_slice_open_end)
  next
    assume "a < 0"
    then show "py_slice rs (Some a) None = drop (nat (int (length rs) + a)) rs"
      by (rule py_slice_from_end)
  next
    assume "b < 0"
    then show "py_slice rs None (Some b) = take (nat (int (length rs) + b)) rs"
      by (rule py_slice_to_end)
  next
    assume "\<not> py_truthy limit"
    then show "apply_limit objs limit = Inr objs" by (rule apply_limit_falsy)
  next
    assume "py_truthy limit \<and> (\<forall>x y. py_iter limit \<noteq> Inr [x, y])"
    then show "apply_limit objs limit = Inl invalid_limit"
      by (simp add: apply_limit_not_pair)
  next
    assume h: "py_truthy limit \<and> py_iter limit = Inr [x, y]
        \<and> (\<forall>n. x \<noteq> PInt n) \<and> (\<forall>p. x \<noteq> PBool p) \<and> x \<noteq> PNone"
    then have "slice_arg x = Inl TypeError" by (simp add: not_bound)
    with h show "apply_limit objs limit = Inl invalid_limit"
      using apply_limit_bad_bound by blast
  next
    assume h: "py_truthy limit \<and> py_iter limit = Inr [x, y]
        \<and> (\<forall>n. y \<noteq> PInt n) \<and> (\<forall>p. y \<noteq> PBool p) \<and> y \<noteq> PNone"
    then have "slice_arg y = Inl TypeError" by (simp add: not_bound)
    with h show "apply_limit objs limit = Inl invalid_limit"
      using apply_limit_bad_bound by blast
  qed
qed

theorem apply_limit_slice_witness:
  "apply_limit (ObjList (map facility [0, 1, 2, 3, 4, 5, 6, 7, 8, 9])) (PList [PInt 2, PInt 5])
     = Inr (ObjList (map facility [2, 3, 4]))
   \<and> apply_limit (ObjList (map facility [0, 1, 2])) (PList [PInt 1, PNone])
     = Inr (ObjList (map facility [1, 2]))
   \<and> apply_limit (ObjList (map facility [0, 1, 2])) (PList [PNone, PInt 2])
     = Inr (ObjList (map facility [0, 1]))
   \<and> apply_limit (ObjList (map facility [0, 1, 2])) (PList [PInt (- 1), PNone])
     = Inr (ObjList (map facility [2]))
   \<and> apply_limit (ObjList (map facility [0, 1, 2])) (PList [PBool False, PBool True])
     = Inr (ObjList (map facility [0]))
   \<and> apply_limit (ObjList (map facility [0, 1, 2])) PNone = Inr (ObjList (map facility [0, 1, 2]))
   \<and> apply_limit (ObjList (map facility [0, 1, 2])) (PList [PInt 1]) = Inl invalid_limit
   \<and> apply_limit (ObjList (map facility [0, 1, 2])) (PList [PStr ''a'', PInt 2])
       = Inl invalid_limit"
proof -
  let ?ten = "map facility [0, 1, 2, 3, 4, 5, 6, 7, 8, 9]"
  let ?three = "map facility [0, 1, 2]"
  have slice: "apply_limit (ObjList ?ten) (PList [PInt 2, PInt 5])
               = Inr (ObjList (map facility [2, 3, 4]))"
    using apply_limit_slice [where rs = ?ten and a = 2 and b = 5]
    by (simp add: numeral_eq_Suc)
  have open_end: "apply_limit (ObjList ?three) (PList [PInt 1, PNone])
                  = Inr (ObjList (map facility [1, 2]))"
    using apply_limit_slice [where rs = ?three and a = 1 and b = 0] by simp
  have open_start: "apply_limit (ObjList ?three) (PList [PNone, PInt 2])
                    = Inr (ObjList (map facility [0, 1]))"
    using apply_limit_slice [where rs = ?three and a = 0 and b = 2]
    by (simp add: numeral_eq_Suc)
  have from_end: "apply_limit (ObjList ?three) (PList [PInt (- 1), PNone])
                  = Inr (ObjList (map facility [2]))"
    using apply_limit_slice [where rs = ?three and a = "- 1" and b = 0]
    by (simp add: numeral_eq_Suc)
  have booleans: "apply_limit (ObjList ?three) (PList [PBool False, PBool True])
                  = Inr (ObjList (map facility [0]))"
    using apply_limit_slice [where rs = ?three and a = 0 and b = 1 and p = False and q = True]
    by simp
  have absent: "apply_limit (ObjList ?three) PNone = Inr (ObjList ?three)"
    using apply_limit_slice [where limit = PNone and objs = "ObjList ?three"]
    by (simp add: py_truthy_def)
  have short: "apply_limit (ObjList ?three) (PList [PInt 1]) = Inl invalid_limit"
    using apply_limit_slice [where limit = "PList [PInt 1]" and objs = "ObjList ?three"]
    by (simp add: py_truthy_def py_iter_def)
  have letters: "apply_limit (ObjList ?three) (PList [PStr ''a'', PInt 2]) = Inl invalid_limit"
    using apply_limit_slice [where limit = "PList [PStr ''a'', PInt 2]"
        and objs = "ObjList ?three" and x = "PStr ''a''" and y = "PInt 2"]
    by (simp add: py_truthy_def py_iter_def)
  from slice open_end open_start from_end booleans absent short letters show ?thesis
    by simp
qed

theorem apply_limit_empty_list_counterexample:
  "apply_limit (ObjList [facility 1, facility 2]) (PList [])
     = Inr (ObjList [facility 1, facility 2])
   \<and> apply_limit (ObjList [facility 1, facility 2]) (PList [PNone, PInt 1])
     = Inr (ObjList [facility 1])
   \<and> apply_limit (ObjList [facility 1, facility 2]) (PList [PInt 0, PNone])
     = Inr (ObjList [facility 1, facility 2])"
  by (simp add: apply_limit_def py_truthy_def unpack2_def py_iter_def bind_err_def
      slice_objects_def slice_arg_def py_slice_def slice_bound_def)

section \<open>Properties of the compiler\<close>

declare build_expression.simps [simp del] clean_filters.simps [simp del]
  expression_keys.simps [simp del] expand_task_dates.simps [simp del] get_ids_from.simps [simp del]

lemma bind_err_Inl [simp]: "bind_err (Inl err) f = Inl err"
  by (simp add: bind_err_def)

lemma bind_err_Inr [simp]: "bind_err (Inr x) f = f x"
  by (simp add: bind_err_def)

lemma build_expression_no_op:
  "py_contains exp ''op'' = Inr False \<Longrightarrow> build_expression e query g exp cls sf = Inr (None, g)"
  by (subst build_expression.simps) simp

lemma build_expression_leaf:
  "py_contains exp ''op'' = Inr True \<Longrightarrow> py_getitem exp ''op'' = Inr opv
   \<Longrightarrow> py_getitem opv ''name'' = Inr name \<Longrightarrow> is_hashable name
   \<Longrightarrow> name \<noteq> PStr ''AND'' \<Longrightarrow> name \<noteq> PStr ''OR''
   \<Longrightarrow> build_expression e query g exp cls sf = build_leaf e query g exp cls sf name"
  by (subst build_expression.simps) simp

lemma py_getitem_contains: "py_getitem exp k = Inr v \<Longrightarrow> py_contains exp k = Inr True"
  by (auto simp: py_getitem_def py_contains_def split: pyval.splits option.splits)

lemma py_getitem_set_item_other:
  "k' \<noteq> k \<Longrightarrow> py_getitem (set_item v k x) k' = py_getitem v k'"
  by (auto simp: py_getitem_def set_item_def map_of_dict_set split: pyval.splits)

lemma py_getitem_set_item_same:
  "is_dict v \<Longrightarrow> py_getitem (set_item v k x) k = Inr x"
  by (auto simp: py_getitem_def set_item_def is_dict_def map_of_dict_set split: pyval.splits)

text \<open>
  C1. A \<open>similar\<close> leaf whose target class has no \<open>get_similar_objects_query\<close> does not
  fail: \<open>similar\<close> constructs the bad-query exception and returns it, so compilation
  succeeds with the exception object in the place of the clause. The specification
  asks for the error to be raised, as \<open>unknown\<close> and \<open>with_key\<close> do.
\<close>

theorem similar_without_contract:
  assumes "py_getitem exp ''op'' = Inr opv"
    and "py_getitem opv ''name'' = Inr (PStr ''similar'')"
    and "py_getitem exp ''object_name'' = Inr name"
    and "object_map_getitem e name = Inr similar_class"
    and "get_similar_objects_query similar_class = None"
  shows "build_expression e query g exp cls sf
         = Inr (Some (ExceptionObject (no_similarity_weights (cls_name similar_class))), g)"
proof -
  have "build_expression e query g exp cls sf
        = build_leaf e query g exp cls sf (PStr ''similar'')"
    using assms(1,2) by (simp add: build_expression_leaf py_getitem_contains is_hashable_def)
  also have "\<dots> = similar e g exp cls"
    by (simp add: build_leaf_def)
  also have "\<dots> = Inr (Some (ExceptionObject (no_similarity_weights (cls_name similar_class))), g)"
    using assms(3,4,5) by (simp add: similar_def)
  finally show ?thesis .
qed

theorem similar_without_contract_witness:
  "build_expression example_env [] None similar_facility Assessment (PList [])
   = Inr (Some (ExceptionObject
           (BadQueryException
              [Fmt ''{} does not define weights to count relationships similarity''
                 [PStr ''Facility'']])), None)"
  using similar_without_contract [of similar_facility "PDict [(''name'', PStr ''similar'')]"
      "PStr ''Facility''" example_env Facility "[]" None Assessment "PList []"]
  by (simp add: similar_facility_def py_getitem_def object_map_getitem_def example_env_def
      Facility_def no_similarity_weights_def)

section \<open>Date literals\<close>

lemma autocast_error:
  "autocast e cls (PStr k) v = Inl err \<Longrightarrow> err = expects_date (PStr k)"
  by (auto simp: autocast_def Let_def split: if_splits pyval.splits sum.splits)

lemma parse_parts:
  "parse_month_day_year (PStr s)
   = bind_err (map_err int_of_str (split_on CHR ''/'' s))
       (\<lambda>nums. case nums of [month, day, year] \<Rightarrow> py_date year month day
                | _ \<Rightarrow> Inl ValueError)"
  by (simp add: parse_month_day_year_def py_split_def)

lemma autocast_date_key:
  assumes "key = fst (alias_get e cls k)"
    and "(str_contains ''date'' key \<and> \<not> str_contains ''relative'' key)
         \<or> key = ''end_date'' \<or> key = ''start_date''"
  shows "autocast e cls (PStr k) v =
     (case v of
        PDate y m d \<Rightarrow> Inr v
      | _ \<Rightarrow> (case parse_month_day_year v of
                Inr d \<Rightarrow> Inr d
              | Inl err \<Rightarrow> Inl (expects_date (PStr k))))"
  using assms by (auto simp: autocast_def Let_def)

lemma autocast_other_key:
  assumes "key = fst (alias_get e cls k)"
    and "\<not> ((str_contains ''date'' key \<and> \<not> str_contains ''relative'' key)
         \<or> key = ''end_date'' \<or> key = ''start_date'')"
  shows "autocast e cls (PStr k) v = Inr v"
  using assms by (auto simp: autocast_def Let_def)

lemma build_comparison:
  assumes "py_getitem exp ''op'' = Inr opv"
    and "py_getitem opv ''name'' = Inr (PStr operator)"
    and "operator \<in> set [''='', ''!='', ''<'', ''>'']"
    and "py_getitem exp ''left'' = Inr (PStr k)"
    and "py_getitem exp ''right'' = Inr v"
    and "alias_get e cls (map lower_char k) = (key', None)"
    and "cls_getattr cls key' = Some attr"
  shows "build_expression e query g exp cls sf =
     bind_err (autocast e cls (PStr k) v)
       (\<lambda>d. Inr (Some (let column = Column (cls_name cls) key' in
                         if operator = ''='' then SqlEq column d
                         else if operator = ''!='' then SqlNot (SqlEq column d)
                         else if operator = ''<'' then SqlLt column d
                         else SqlGt column d), g))"
proof -
  have "build_expression e query g exp cls sf
        = build_leaf e query g exp cls sf (PStr operator)"
    using assms(1-3) by (auto simp: build_expression_leaf py_getitem_contains is_hashable_def)
  then show ?thesis
    using assms(3-7)
    by (auto simp: build_leaf_def with_left_def with_key_def rhs_def py_lower_def Let_def
        bind_err_def split: sum.splits)
qed

text \<open>
  C2 (as amended). The date test of \<open>autocast\<close> is applied to the left operand as it is
  written, mapped through the alias map: the name contains \<open>date\<close> and not \<open>relative\<close>, or
  is \<open>end_date\<close> or \<open>start_date\<close>. For such a left operand the literals \<open>02/30/2020\<close> and
  \<open>2/30/2020\<close> both split and convert to month 2, day 30, year 2020, the date constructor
  rejects that date, and both fail with the bad-query error: the construction of the
  date stands inside the guarded block, so its rejection is caught as well. In general
  a string whose three parts convert to numbers yields the constructed date when the
  constructor accepts them, and the bad-query error when it rejects them, when a part
  is not a number, or when there are not three parts; a date value passes unchanged,
  and no other error leaves \<open>autocast\<close>, whatever the right-hand value. A comparison
  with \<open>=\<close>, \<open>!=\<close>, \<open><\<close> or \<open>>\<close> on a column compiles with the value that \<open>autocast\<close>
  returns and fails with its error.
\<close>

theorem autocast_date_field:
  assumes "key = fst (alias_get e cls k)"
    and "(str_contains ''date'' key \<and> \<not> str_contains ''relative'' key)
         \<or> key = ''end_date'' \<or> key = ''start_date''"
  shows "map_err int_of_str (split_on CHR ''/'' ''02/30/2020'') = Inr [2, 30, 2020]
       \<and> map_err int_of_str (split_on CHR ''/'' ''2/30/2020'') = Inr [2, 30, 2020]
       \<and> py_date 2020 2 30 = Inl ValueError
       \<and> autocast e cls (PStr k) (PStr ''02/30/2020'') = Inl (expects_date (PStr k))
       \<and> autocast e cls (PStr k) (PStr ''2/30/2020'') = Inl (expects_date (PStr k))
       \<and> (\<forall>s month day year d.
            map_err int_of_str (split_on CHR ''/'' s) = Inr [month, day, year]
            \<and> py_date year month day = Inr d
            \<longrightarrow> autocast e cls (PStr k) (PStr s) = Inr d)
       \<and> (\<forall>s month day year err.
            map_err int_of_str (split_on CHR ''/'' s) = Inr [month, day, year]
            \<and> py_date year month day = Inl err
            \<longrightarrow> autocast e cls (PStr k) (PStr s) = Inl (expects_date (PStr k)))
       \<and> (\<forall>s err. map_err int_of_str (split_on CHR ''/'' s) = Inl err
            \<longrightarrow> autocast e cls (PStr k) (PStr s) = Inl (expects_date (PStr k)))
       \<and> (\<forall>s nums. map_err int_of_str (split_on CHR ''/'' s) = Inr nums \<and> length nums \<noteq> 3
            \<longrightarrow> autocast e cls (PStr k) (PStr s) = Inl (expects_date (PStr k)))
       \<and> (\<forall>y m d. autocast e cls (PStr k) (PDate y m d) = Inr (PDate y m d))
       \<and> (\<forall>v err. autocast e cls (PStr k) v = Inl err \<longrightarrow> err = expects_date (PStr k))
       \<and> (\<forall>query g exp sf opv operator v key' attr.
            py_getitem exp ''op'' = Inr opv
            \<and> py_getitem opv ''name'' = Inr (PStr operator)
            \<and> operator \<in> set [''='', ''!='', ''<'', ''>'']
            \<and> py_getitem exp ''left'' = Inr (PStr k)
            \<and> py_getitem exp ''right'' = Inr v
            \<and> alias_get e cls (map lower_char k) = (key', None)
            \<and> cls_getattr cls key' = Some attr
            \<longrightarrow> build_expression e query g exp cls sf =
                 bind_err (autocast e cls (PStr k) v)
                   (\<lambda>d. Inr (Some (let column = Column (cls_name cls) key' in
                                     if operator = ''='' then SqlEq column d
                                     else if operator = ''!='' then SqlNot (SqlEq column d)
                                     else if operator = ''<'' then SqlLt column d
                                     else SqlGt column d), g)))"
proof -
  note cast = autocast_date_key [OF assms]
  have p1: "map_err int_of_str (split_on CHR ''/'' ''02/30/2020'') = Inr [2, 30, 2020]"
    by code_simp
  have p2: "map_err int_of_str (split_on CHR ''/'' ''2/30/2020'') = Inr [2, 30, 2020]"
    by code_simp
  have p3: "py_date 2020 2 30 = Inl ValueError"
    by code_simp
  have p4: "autocast e cls (PStr k) (PStr ''02/30/2020'') = Inl (expects_date (PStr k))"
    unfolding cast parse_parts p1 by (simp add: p3)
  have p5: "autocast e cls (PStr k) (PStr ''2/30/2020'') = Inl (expects_date (PStr k))"
    unfolding cast parse_parts p2 by (simp add: p3)
  have p6: "\<forall>s month day year d.
            map_err int_of_str (split_on CHR ''/'' s) = Inr [month, day, year]
            \<and> py_date year month day = Inr d
            \<longrightarrow> autocast e cls (PStr k) (PStr s) = Inr d"
    by (simp add: cast parse_parts)
  have p7: "\<forall>s month day year err.
            map_err int_of_str (split_on CHR ''/'' s) = Inr [month, day, year]
            \<and> py_date year month day = Inl err
            \<longrightarrow> autocast e cls (PStr k) (PStr s) = Inl (expects_date (PStr k))"
    by (simp add: cast parse_parts)
  have p8: "\<forall>s err. map_err int_of_str (split_on CHR ''/'' s) = Inl err
            \<longrightarrow> autocast e cls (PStr k) (PStr s) = Inl (expects_date (PStr k))"
    by (simp add: cast parse_parts)
  have p9: "\<forall>s nums. map_err int_of_str (split_on CHR ''/'' s) = Inr nums \<and> length nums \<noteq> 3
            \<longrightarrow> autocast e cls (PStr k) (PStr s) = Inl (expects_date (PStr k))"
    by (auto simp: cast parse_parts split: list.splits)
  have p10: "\<forall>y m d. autocast e cls (PStr k) (PDate y m d) = Inr (PDate y m d)"
    by (simp add: cast)
  have p11: "\<forall>v err. autocast e cls (PStr k) v = Inl err \<longrightarrow> err = expects_date (PStr k)"
    using autocast_error by blast
  have p12: "\<forall>query g exp sf opv operator v key' attr.
            py_getitem exp ''op'' = Inr opv
            \<and> py_getitem opv ''name'' = Inr (PStr operator)
            \<and> operator \<in> set [''='', ''!='', ''<'', ''>'']
            \<and> py_getitem exp ''left'' = Inr (PStr k)
            \<and> py_getitem exp ''right'' = Inr v
            \<and> alias_get e cls (map lower_char k) = (key', None)
            \<and> cls_getattr cls key' = Some attr
            \<longrightarrow> build_expression e query g exp cls sf =
                 bind_err (autocast e cls (PStr k) v)
                   (\<lambda>d. Inr (Some (let column = Column (cls_name cls) key' in
                                     if operator = ''='' then SqlEq column d
                                     else if operator = ''!='' then SqlNot (SqlEq column d)
                                     else if operator = ''<'' then SqlLt column d
                                     else SqlGt column d), g))"
    using build_comparison by blast
  from p1 p2 p3 p4 p5 p6 p7 p8 p9 p10 p11 p12 show ?thesis
    by (intro conjI)
qed

lemma example_start_date: "fst (alias_get example_env Facility ''start_date'') = ''start_date''"
  by code_simp

theorem autocast_date_field_witness:
  "autocast example_env Facility (PStr ''start_date'') (PStr ''02/30/2020'')
     = Inl (expects_date (PStr ''start_date''))
   \<and> autocast example_env Facility (PStr ''start_date'') (PStr ''2/30/2020'')
     = Inl (expects_date (PStr ''start_date''))
   \<and> autocast example_env Facility (PStr ''start_date'') (PStr ''02/29/2020'')
     = Inr (PDate 2020 2 29)
   \<and> autocast example_env Facility (PStr ''start_date'') (PStr ''02/29/2021'')
     = Inl (expects_date (PStr ''start_date''))
   \<and> autocast example_env Facility (PStr ''start_date'') (PStr ''soon'')
     = Inl (expects_date (PStr ''start_date''))
   \<and> build_expression example_env [] None (task_leaf ''start_date'' ''02/29/2020'') Facility
       (PList [])
     = Inr (Some (SqlEq (Column ''Facility'' ''start_date'') (PDate 2020 2 29)), None)
   \<and> build_expression example_env [] None start_date_feb_30 Facility (PList [])
     = Inl (expects_date (PStr ''start_date''))"
proof -
  note inst = autocast_date_field [where e = example_env and cls = Facility
      and k = "''start_date''" and key = "''start_date''"]
  have test: "(str_contains ''date'' ''start_date'' \<and> \<not> str_contains ''relative'' ''start_date'')
         \<or> ''start_date'' = ''end_date'' \<or> ''start_date'' = ''start_date''"
    by simp
  note facts = inst [OF example_start_date [symmetric] test]
  have a: "autocast example_env Facility (PStr ''start_date'') (PStr ''02/30/2020'')
     = Inl (expects_date (PStr ''start_date''))"
    using facts by blast
  have b: "autocast example_env Facility (PStr ''start_date'') (PStr ''2/30/2020'')
     = Inl (expects_date (PStr ''start_date''))"
    using facts by blast
  have s1: "map_err int_of_str (split_on CHR ''/'' ''02/29/2020'') = Inr [2, 29, 2020]"
    by code_simp
  have d1: "py_date 2020 2 29 = Inr (PDate 2020 2 29)"
    by code_simp
  have c: "autocast example_env Facility (PStr ''start_date'') (PStr ''02/29/2020'')
     = Inr (PDate 2020 2 29)"
    using facts [THEN conjunct2, THEN conjunct2, THEN conjunct2, THEN conjunct2,
        THEN conjunct2, THEN conjunct1, rule_format, of "''02/29/2020''" 2 29 2020
        "PDate 2020 2 29"] s1 d1
    by simp
  have s2: "map_err int_of_str (split_on CHR ''/'' ''02/29/2021'') = Inr [2, 29, 2021]"
    by code_simp
  have d2: "py_date 2021 2 29 = Inl ValueError"
    by code_simp
  have d: "autocast example_env Facility (PStr ''start_date'') (PStr ''02/29/2021'')
     = Inl (expects_date (PStr ''start_date''))"
    using facts [THEN conjunct2, THEN conjunct2, THEN conjunct2, THEN conjunct2,
        THEN conjunct2, THEN conjunct2, THEN conjunct1, rule_format,
        of "''02/29/2021''" 2 29 2021 ValueError] s2 d2
    by simp
  have s3: "map_err int_of_str (split_on CHR ''/'' ''soon'') = Inl ValueError"
    by code_simp
  have f: "autocast example_env Facility (PStr ''start_date'') (PStr ''soon'')
     = Inl (expects_date (PStr ''start_date''))"
    using facts [THEN conjunct2, THEN conjunct2, THEN conjunct2, THEN conjunct2,
        THEN conjunct2, THEN conjunct2, THEN conjunct2, THEN conjunct1, rule_format,
        of "''soon''" ValueError] s3
    by simp
  note compile = facts [THEN conjunct2, THEN conjunct2, THEN conjunct2, THEN conjunct2,
        THEN conjunct2, THEN conjunct2, THEN conjunct2, THEN conjunct2, THEN conjunct2,
        THEN conjunct2, THEN conjunct2, rule_format]
  have letters: "map lower_char ''start_date'' = ''start_date''"
    by code_simp
  have resolved: "alias_get example_env Facility (map lower_char ''start_date'')
               = (''start_date'', None)"
    unfolding letters by (simp add: alias_get_def example_env_def Facility_def)
  have attr: "cls_getattr Facility ''start_date'' = Some SimpleAttr"
    by code_simp
  have g: "build_expression example_env [] None (task_leaf ''start_date'' ''02/29/2020'')
             Facility (PList [])
     = Inr (Some (SqlEq (Column ''Facility'' ''start_date'') (PDate 2020 2 29)), None)"
    using compile [of "task_leaf ''start_date'' ''02/29/2020''"
        "PDict [(''name'', PStr ''='')]" "''=''" "PStr ''02/29/2020''" "''start_date''"
        SimpleAttr "[]" None "PList []"] resolved attr c
    by (simp add: task_leaf_def py_getitem_def Facility_def)
  have h: "build_expression example_env [] None start_date_feb_30 Facility (PList [])
     = Inl (expects_date (PStr ''start_date''))"
    using compile [of start_date_feb_30
        "PDict [(''name'', PStr ''='')]" "''=''" "PStr ''2/30/2020''" "''start_date''"
        SimpleAttr "[]" None "PList []"] resolved attr b
    by (simp add: start_date_feb_30_def py_getitem_def Facility_def)
  from a b c d f g h show ?thesis
    by (intro conjI)
qed

theorem autocast_feb_30_counterexample:
  "map_err int_of_str (split_on CHR ''/'' ''2/30/2020'') = Inr [2, 30, 2020]
   \<and> py_date 2020 2 30 = Inl ValueError
   \<and> autocast example_env Facility (PStr ''start_date'') (PStr ''2/30/2020'')
       = Inl (BadQueryException
                [Fmt (''Field '' @ dquote @ ''{}'' @ dquote @ '' expects a MM/DD/YYYY date'')
                   [PStr ''start_date'']])
   \<and> build_expression example_env [] None start_date_feb_30 Facility (PList [])
       = Inl (BadQueryException
                [Fmt (''Field '' @ dquote @ ''{}'' @ dquote @ '' expects a MM/DD/YYYY date'')
                   [PStr ''start_date'']])
   \<and> fst (alias_get example_env Facility (map lower_char ''Start_Date'')) = ''start_date''
   \<and> autocast example_env Facility (PStr ''Start_Date'') (PStr ''02/30/2020'')
       = Inr (PStr ''02/30/2020'')
   \<and> build_expression example_env [] None (task_leaf ''Start_Date'' ''02/30/2020'') Facility
       (PList [])
       = Inr (Some (SqlEq (Column ''Facility'' ''start_date'') (PStr ''02/30/2020'')), None)"
  by code_simp

section \<open>Macro expansion\<close>

lemma py_getitem_is_dict: "py_getitem v k = Inr x \<Longrightarrow> is_dict v"
  by (auto simp: py_getitem_def is_dict_def split: pyval.splits)

lemma py_getitem_get: "py_getitem v k = Inr x \<Longrightarrow> py_get v k dflt = Inr x"
  by (auto simp: py_getitem_def py_get_def split: pyval.splits option.splits)

lemma expand_task_dates_leaf:
  assumes "py_getitem exp ''op'' = Inr opv"
    and "py_getitem opv ''name'' = Inr operator"
    and "operator \<noteq> PStr ''AND''" and "operator \<noteq> PStr ''OR''"
    and "py_getitem exp ''left'' = Inr (PStr key)"
    and "key = ''start'' \<or> key = ''end''"
  shows "expand_task_dates exp = expand_leaf exp operator key"
  using assms
  by (subst expand_task_dates.simps)
    (auto simp: py_getitem_is_dict py_getitem_contains)

lemma expression_keys_leaf:
  assumes "py_getitem exp ''op'' = Inr opv"
    and "py_getitem opv ''name'' = Inr operator"
    and "operator \<noteq> PStr ''AND''" and "operator \<noteq> PStr ''OR''"
    and "py_getitem exp ''left'' = Inr (PStr key)"
  shows "expression_keys exp = Inr [PStr key]"
  using assms
  by (subst expression_keys.simps) (simp add: py_getitem_get is_hashable_def)

lemma is_and_orE:
  assumes "is_and_or exp"
  obtains opv operator where "py_getitem exp ''op'' = Inr opv"
    "py_getitem opv ''name'' = Inr operator"
    "operator = PStr ''AND'' \<or> operator = PStr ''OR''"
  using assms by (auto simp: is_and_or_def split: sum.splits)

lemma expand_task_dates_node:
  assumes "is_and_or exp"
  shows "expand_task_dates exp =
     bind_err (py_getitem exp ''left'')
       (\<lambda>left. bind_err (expand_task_dates left)
         (\<lambda>left'. bind_err (py_getitem exp ''right'')
           (\<lambda>right. bind_err (expand_task_dates right)
             (\<lambda>right'. Inr (set_item (set_item exp ''left'' left') ''right'' right')))))"
proof -
  from assms obtain opv operator where "py_getitem exp ''op'' = Inr opv"
    "py_getitem opv ''name'' = Inr operator"
    "operator = PStr ''AND'' \<or> operator = PStr ''OR''"
    by (rule is_and_orE)
  then show ?thesis
    by (subst expand_task_dates.simps)
      (auto simp: py_getitem_is_dict py_getitem_contains)
qed

lemma expression_keys_node:
  assumes "is_and_or exp"
  shows "expression_keys exp =
     bind_err (py_getitem exp ''left'')
       (\<lambda>left. bind_err (expression_keys left)
         (\<lambda>ks. bind_err (py_getitem exp ''right'')
           (\<lambda>right. bind_err (expression_keys right)
             (\<lambda>ks'. Inr (ks @ ks')))))"
proof -
  from assms obtain opv operator where "py_getitem exp ''op'' = Inr opv"
    "py_getitem opv ''name'' = Inr operator"
    "operator = PStr ''AND'' \<or> operator = PStr ''OR''"
    by (rule is_and_orE)
  then show ?thesis
    by (subst expression_keys.simps) (auto simp: py_getitem_get)
qed

lemma expand_task_dates_nodeE:
  assumes "is_and_or exp" and "expand_task_dates exp = Inr exp'"
  obtains left left' right right' where
    "py_getitem exp ''left'' = Inr left" "expand_task_dates left = Inr left'"
    "py_getitem exp ''right'' = Inr right" "expand_task_dates right = Inr right'"
    "exp' = set_item (set_item exp ''left'' left') ''right'' right'"
  using assms
  by (auto simp: expand_task_dates_node bind_err_def split: sum.splits)

lemma expand_task_dates_descend:
  "expand_task_dates exp = Inr exp' \<Longrightarrow> and_or_path exp path \<Longrightarrow> descend exp path = Inr sub
   \<Longrightarrow> \<exists>sub'. expand_task_dates sub = Inr sub' \<and> descend exp' path = Inr sub'"
proof (induction path arbitrary: exp exp')
  case Nil
  then show ?case by simp
next
  case (Cons right path)
  from Cons.prems(2) have node: "is_and_or exp" by simp
  from node Cons.prems(1) obtain l l' r r' where
    parts: "py_getitem exp ''left'' = Inr l" "expand_task_dates l = Inr l'"
      "py_getitem exp ''right'' = Inr r" "expand_task_dates r = Inr r'"
    and exp': "exp' = set_item (set_item exp ''left'' l') ''right'' r'"
    by (rule expand_task_dates_nodeE)
  have dict: "is_dict exp"
    using parts(1) by (rule py_getitem_is_dict)
  have dict': "is_dict (set_item exp ''left'' l')"
    using dict by (cases exp) (simp_all add: set_item_def is_dict_def)
  have left': "py_getitem exp' ''left'' = Inr l'"
    unfolding exp' using dict
    by (simp add: py_getitem_set_item_other py_getitem_set_item_same)
  have right': "py_getitem exp' ''right'' = Inr r'"
    unfolding exp' using dict' by (rule py_getitem_set_item_same)
  show ?case
  proof (cases right)
    case True
    with Cons.prems parts have "and_or_path r path" "descend r path = Inr sub"
      by simp_all
    from Cons.IH [OF parts(4) this] True right' show ?thesis by simp
  next
    case False
    with Cons.prems parts have "and_or_path l path" "descend l path = Inr sub"
      by simp_all
    from Cons.IH [OF parts(2) this] False left' show ?thesis by simp
  qed
qed

lemma expression_keys_descend:
  "expression_keys exp = Inr keys \<Longrightarrow> and_or_path exp path \<Longrightarrow> descend exp path = Inr sub
   \<Longrightarrow> \<exists>ks. expression_keys sub = Inr ks \<and> set ks \<subseteq> set keys"
proof (induction path arbitrary: exp keys)
  case Nil
  then show ?case by simp
next
  case (Cons right path)
  from Cons.prems(2) have node: "is_and_or exp" by simp
  from Cons.prems(1) obtain l kl r kr where
    parts: "py_getitem exp ''left'' = Inr l" "expression_keys l = Inr kl"
      "py_getitem exp ''right'' = Inr r" "expression_keys r = Inr kr"
    and keys: "keys = kl @ kr"
    by (auto simp: expression_keys_node [OF node] bind_err_def split: sum.splits)
  show ?case
  proof (cases right)
    case True
    with Cons.prems parts have "and_or_path r path" "descend r path = Inr sub"
      by simp_all
    from Cons.IH [OF parts(4) this] keys show ?thesis by auto
  next
    case False
    with Cons.prems parts have "and_or_path l path" "descend l path = Inr sub"
      by simp_all
    from Cons.IH [OF parts(2) this] keys show ?thesis by auto
  qed
qed

lemma macro_expand_tree:
  assumes "py_getitem object_query ''object_name'' = Inr (PStr ''TaskGroupTask'')"
    and "py_get object_query ''filters'' PNone = Inr filters"
    and "py_getitem filters ''expression'' = Inr exp"
    and "expression_keys exp = Inr keys"
    and "PStr ''start'' \<in> set keys \<or> PStr ''end'' \<in> set keys"
  shows "macro_expand_object_query object_query
         = bind_err (expand_task_dates exp)
             (\<lambda>exp'. Inr (set_item object_query ''filters''
                            (set_item filters ''expression'' exp')))"
proof -
  have "filters \<noteq> PNone"
    using assms(3) by (auto simp: py_getitem_def)
  then show ?thesis
    using assms by (auto simp: macro_expand_object_query_def)
qed

lemma macro_expand_fails:
  assumes "py_getitem object_query ''object_name'' = Inr (PStr ''TaskGroupTask'')"
    and "py_get object_query ''filters'' PNone = Inr filters"
    and "py_getitem filters ''expression'' = Inr exp"
    and "expression_keys exp = Inl err"
  shows "macro_expand_object_query object_query = Inl err"
proof -
  have "filters \<noteq> PNone"
    using assms(3) by (auto simp: py_getitem_def)
  then show ?thesis
    using assms by (auto simp: macro_expand_object_query_def)
qed

text \<open>
  C3. In an object query of type \<open>TaskGroupTask\<close>, take any leaf of the expression
  (the expression itself, or a comparison below \<open>AND\<close> and \<open>OR\<close> nodes) whose left
  operand is \<open>start\<close> or \<open>end\<close> and whose right operand is a string. The leaf is
  rewritten by the number of parts between slashes: three parts that are numbers of a
  calendar date give left \<open>start_date\<close> (or \<open>end_date\<close>) and that date as right
  operand; two parts give the conjunction \<open>AND\<close> of \<open>relative_start_month\<close> with the
  first part and \<open>relative_start_day\<close> with the second, each under the operator of the
  leaf; one part gives \<open>relative_start_day\<close> with the right operand as it was; more
  than three parts fail with the bad-query error that lists the accepted forms. When
  macro expansion returns, the expression it stores has the rewritten leaf at the
  position of the leaf; when the rewriting of the leaf fails, macro expansion fails. In
  the forms of two parts and of one part the operands stay the strings the parts are.
\<close>

theorem macro_expand_task_dates:
  assumes "py_getitem object_query ''object_name'' = Inr (PStr ''TaskGroupTask'')"
    and "py_get object_query ''filters'' PNone = Inr filters"
    and "py_getitem filters ''expression'' = Inr exp"
    and "and_or_path exp path"
    and "descend exp path = Inr leaf"
    and "py_getitem leaf ''op'' = Inr opv"
    and "py_getitem opv ''name'' = Inr operator"
    and "operator \<noteq> PStr ''AND''" and "operator \<noteq> PStr ''OR''"
    and "py_getitem leaf ''left'' = Inr (PStr key)"
    and "key = ''start'' \<or> key = ''end''"
    and "py_getitem leaf ''right'' = Inr (PStr s)"
  shows
    "(split_on CHR ''/'' s = [p1, p2, p3]
        \<and> map_err int_of_str [p1, p2, p3] = Inr [month, day, year]
        \<and> py_date year month day = Inr d
      \<longrightarrow> expand_task_dates leaf
          = Inr (set_item (set_item leaf ''left'' (PStr (key @ ''_date''))) ''right'' d))
     \<and> (split_on CHR ''/'' s = [p1, p2]
      \<longrightarrow> expand_task_dates leaf
          = Inr (set_item
                  (set_item
                     (set_item leaf ''op'' (PDict [(''name'', PStr ''AND'')]))
                     ''left''
                     (PDict [(''op'', PDict [(''name'', operator)]),
                             (''left'', PStr (''relative_'' @ key @ ''_month'')),
                             (''right'', PStr p1)]))
                  ''right''
                  (PDict [(''op'', PDict [(''name'', operator)]),
                          (''left'', PStr (''relative_'' @ key @ ''_day'')),
                          (''right'', PStr p2)])))
     \<and> (split_on CHR ''/'' s = [p1]
      \<longrightarrow> expand_task_dates leaf
          = Inr (set_item leaf ''left'' (PStr (''relative_'' @ key @ ''_day''))))
     \<and> (3 < length (split_on CHR ''/'' s)
      \<longrightarrow> expand_task_dates leaf = Inl (date_forms key))
     \<and> (\<forall>object_query'. macro_expand_object_query object_query = Inr object_query'
      \<longrightarrow> (\<exists>exp' leaf'.
             object_query' = set_item object_query ''filters''
                               (set_item filters ''expression'' exp')
             \<and> expand_task_dates exp = Inr exp'
             \<and> expand_task_dates leaf = Inr leaf'
             \<and> descend exp' path = Inr leaf'))
     \<and> (\<forall>err. expand_task_dates leaf = Inl err
      \<longrightarrow> (\<exists>err'. macro_expand_object_query object_query = Inl err'))
     \<and> (path = []
      \<longrightarrow> macro_expand_object_query object_query
          = bind_err (expand_task_dates leaf)
              (\<lambda>leaf'. Inr (set_item object_query ''filters''
                              (set_item filters ''expression'' leaf'))))"
proof -
  note leaf = expand_task_dates_leaf [OF assms(6-11)]
  have parts: "bind_err (py_getitem leaf ''right'') (\<lambda>right. bind_err (py_split right) f)
               = f (split_on CHR ''/'' s)" for f :: "string list \<Rightarrow> error + pyval"
    using assms(12) by (simp add: py_split_def)
  have leaf_keys: "expression_keys leaf = Inr [PStr key]"
    using assms(6-10) by (rule expression_keys_leaf)
  have referenced: "PStr ''start'' \<in> set keys \<or> PStr ''end'' \<in> set keys"
    if "expression_keys exp = Inr keys" for keys
  proof -
    from expression_keys_descend [OF that assms(4,5)] leaf_keys
    have "PStr key \<in> set keys" by auto
    with assms(11) show ?thesis by auto
  qed
  have expanded: "macro_expand_object_query object_query
         = bind_err (expand_task_dates exp)
             (\<lambda>exp'. Inr (set_item object_query ''filters''
                            (set_item filters ''expression'' exp')))"
    if "expression_keys exp = Inr keys" for keys
    using assms(1-3) that referenced [OF that] by (rule macro_expand_tree)
  have rule3: "split_on CHR ''/'' s = [p1, p2, p3]
        \<and> map_err int_of_str [p1, p2, p3] = Inr [month, day, year]
        \<and> py_date year month day = Inr d
      \<longrightarrow> expand_task_dates leaf
          = Inr (set_item (set_item leaf ''left'' (PStr (key @ ''_date''))) ''right'' d)"
    unfolding leaf expand_leaf_def parts by simp
  have rule2: "split_on CHR ''/'' s = [p1, p2]
      \<longrightarrow> expand_task_dates leaf
          = Inr (set_item
                  (set_item
                     (set_item leaf ''op'' (PDict [(''name'', PStr ''AND'')]))
                     ''left''
                     (PDict [(''op'', PDict [(''name'', operator)]),
                             (''left'', PStr (''relative_'' @ key @ ''_month'')),
                             (''right'', PStr p1)]))
                  ''right''
                  (PDict [(''op'', PDict [(''name'', operator)]),
                          (''left'', PStr (''relative_'' @ key @ ''_day'')),
                          (''right'', PStr p2)]))"
    unfolding leaf expand_leaf_def parts by simp
  have rule1: "split_on CHR ''/'' s = [p1]
      \<longrightarrow> expand_task_dates leaf
          = Inr (set_item leaf ''left'' (PStr (''relative_'' @ key @ ''_day'')))"
    unfolding leaf expand_leaf_def parts by simp
  have rule4: "3 < length (split_on CHR ''/'' s)
      \<longrightarrow> expand_task_dates leaf = Inl (date_forms key)"
    unfolding leaf expand_leaf_def parts by (auto split: list.splits)
  have success: "\<forall>object_query'. macro_expand_object_query object_query = Inr object_query'
      \<longrightarrow> (\<exists>exp' leaf'.
             object_query' = set_item object_query ''filters''
                               (set_item filters ''expression'' exp')
             \<and> expand_task_dates exp = Inr exp'
             \<and> expand_task_dates leaf = Inr leaf'
             \<and> descend exp' path = Inr leaf')"
  proof (intro allI impI)
    fix object_query'
    assume run: "macro_expand_object_query object_query = Inr object_query'"
    obtain keys where keys: "expression_keys exp = Inr keys"
      using run macro_expand_fails [OF assms(1-3)] by (cases "expression_keys exp") auto
    from run expanded [OF keys] obtain exp' where
      exp': "expand_task_dates exp = Inr exp'"
      and oq': "object_query' = set_item object_query ''filters''
                                  (set_item filters ''expression'' exp')"
      by (auto simp: bind_err_def split: sum.splits)
    from expand_task_dates_descend [OF exp' assms(4,5)] obtain leaf' where
      "expand_task_dates leaf = Inr leaf'" "descend exp' path = Inr leaf'"
      by blast
    with exp' oq' show "\<exists>exp' leaf'.
             object_query' = set_item object_query ''filters''
                               (set_item filters ''expression'' exp')
             \<and> expand_task_dates exp = Inr exp'
             \<and> expand_task_dates leaf = Inr leaf'
             \<and> descend exp' path = Inr leaf'"
      by blast
  qed
  have failure: "\<forall>err. expand_task_dates leaf = Inl err
      \<longrightarrow> (\<exists>err'. macro_expand_object_query object_query = Inl err')"
  proof (intro allI impI)
    fix err
    assume bad: "expand_task_dates leaf = Inl err"
    show "\<exists>err'. macro_expand_object_query object_query = Inl err'"
    proof (cases "macro_expand_object_query object_query")
      case (Inl err')
      then show ?thesis by blast
    next
      case (Inr object_query')
      with success bad show ?thesis by auto
    qed
  qed
  have root: "path = []
      \<longrightarrow> macro_expand_object_query object_query
          = bind_err (expand_task_dates leaf)
              (\<lambda>leaf'. Inr (set_item object_query ''filters''
                              (set_item filters ''expression'' leaf')))"
  proof
    assume "path = []"
    with assms(5) have "leaf = exp" by simp
    with leaf_keys expanded show "macro_expand_object_query object_query
          = bind_err (expand_task_dates leaf)
              (\<lambda>leaf'. Inr (set_item object_query ''filters''
                              (set_item filters ''expression'' leaf')))"
      by simp
  qed
  from rule3 rule2 rule1 rule4 success failure root show ?thesis
    by (intro conjI)
qed

lemma expand_task_dates_other_leaf:
  assumes "py_getitem exp ''op'' = Inr opv"
    and "py_getitem opv ''name'' = Inr operator"
    and "operator \<noteq> PStr ''AND''" and "operator \<noteq> PStr ''OR''"
    and "py_getitem exp ''left'' = Inr left"
    and "left \<noteq> PStr ''start''" and "left \<noteq> PStr ''end''"
  shows "expand_task_dates exp = Inr exp"
  using assms
  by (subst expand_task_dates.simps)
    (auto simp: py_getitem_is_dict py_getitem_contains split: pyval.splits)

lemma task_query_hyps:
  "py_getitem (task_query exp) ''object_name'' = Inr (PStr ''TaskGroupTask'')"
  "py_get (task_query exp) ''filters'' PNone = Inr (PDict [(''expression'', exp)])"
  "py_getitem (PDict [(''expression'', exp)]) ''expression'' = Inr exp"
  by (simp_all add: task_query_def py_getitem_def py_get_def)

lemma task_leaf_hyps:
  "py_getitem (task_leaf key s) ''op'' = Inr (PDict [(''name'', PStr ''='')])"
  "py_getitem (PDict [(''name'', PStr ''='')]) ''name'' = Inr (PStr ''='')"
  "PStr ''='' \<noteq> PStr ''AND''" "PStr ''='' \<noteq> PStr ''OR''"
  "py_getitem (task_leaf key s) ''left'' = Inr (PStr key)"
  by (simp_all add: task_leaf_def py_getitem_def)

lemma task_leaf_right: "py_getitem (task_leaf key s) ''right'' = Inr (PStr s)"
  by (simp add: task_leaf_def py_getitem_def)

theorem macro_expand_task_dates_witness:
  "macro_expand_object_query (task_query (task_leaf ''start'' ''3/15/2021''))
     = Inr (task_query
             (PDict [(''op'', PDict [(''name'', PStr ''='')]),
                     (''left'', PStr ''start_date''), (''right'', PDate 2021 3 15)]))
   \<and> macro_expand_object_query (task_query (task_leaf ''start'' ''3/15''))
     = Inr (task_query
             (PDict [(''op'', PDict [(''name'', PStr ''AND'')]),
                     (''left'', PDict [(''op'', PDict [(''name'', PStr ''='')]),
                                       (''left'', PStr ''relative_start_month''),
                                       (''right'', PStr ''3'')]),
                     (''right'', PDict [(''op'', PDict [(''name'', PStr ''='')]),
                                        (''left'', PStr ''relative_start_day''),
                                        (''right'', PStr ''15'')])]))
   \<and> macro_expand_object_query (task_query (task_leaf ''end'' ''15''))
     = Inr (task_query
             (PDict [(''op'', PDict [(''name'', PStr ''='')]),
                     (''left'', PStr ''relative_end_day''), (''right'', PStr ''15'')]))
   \<and> macro_expand_object_query (task_query (task_leaf ''start'' ''3/15/2021/x''))
     = Inl (date_forms ''start'')
   \<and> macro_expand_object_query (task_query nested_dates)
     = Inr (task_query nested_dates_expanded)
   \<and> descend nested_dates [True] = Inr (task_leaf ''end'' ''12/31/2021'')
   \<and> descend nested_dates_expanded [True]
     = Inr (PDict [(''op'', PDict [(''name'', PStr ''='')]),
                   (''left'', PStr ''end_date''), (''right'', PDate 2021 12 31)])"
proof -
  note root = macro_expand_task_dates [OF task_query_hyps _ _ task_leaf_hyps _ task_leaf_right,
      where path = "[]"]
  have full: "macro_expand_object_query (task_query (task_leaf ''start'' ''3/15/2021''))
     = Inr (task_query
             (PDict [(''op'', PDict [(''name'', PStr ''='')]),
                     (''left'', PStr ''start_date''), (''right'', PDate 2021 3 15)]))"
    using root [where key = "''start''" and s = "''3/15/2021''" and ?p1.0 = "''3''"
        and ?p2.0 = "''15''" and ?p3.0 = "''2021''" and month = 3 and day = 15 and year = 2021
        and d = "PDate 2021 3 15"]
    by (simp add: task_query_def task_leaf_def set_item_def
        int_of_str_def strip_def is_space_def digit_of_def py_date_def fits_c_int_def
        days_in_month_def)
  have month_day: "macro_expand_object_query (task_query (task_leaf ''start'' ''3/15''))
     = Inr (task_query
             (PDict [(''op'', PDict [(''name'', PStr ''AND'')]),
                     (''left'', PDict [(''op'', PDict [(''name'', PStr ''='')]),
                                       (''left'', PStr ''relative_start_month''),
                                       (''right'', PStr ''3'')]),
                     (''right'', PDict [(''op'', PDict [(''name'', PStr ''='')]),
                                        (''left'', PStr ''relative_start_day''),
                                        (''right'', PStr ''15'')])]))"
    using root [where key = "''start''" and s = "''3/15''" and ?p1.0 = "''3''"
        and ?p2.0 = "''15''"]
    by (simp add: task_query_def task_leaf_def set_item_def)
  have day: "macro_expand_object_query (task_query (task_leaf ''end'' ''15''))
     = Inr (task_query
             (PDict [(''op'', PDict [(''name'', PStr ''='')]),
                     (''left'', PStr ''relative_end_day''), (''right'', PStr ''15'')]))"
    using root [where key = "''end''" and s = "''15''" and ?p1.0 = "''15''"]
    by (simp add: task_query_def task_leaf_def set_item_def)
  have four: "macro_expand_object_query (task_query (task_leaf ''start'' ''3/15/2021/x''))
     = Inl (date_forms ''start'')"
    using root [where key = "''start''" and s = "''3/15/2021/x''"]
    by simp
  have run: "macro_expand_object_query (task_query nested_dates)
             = Inr (task_query nested_dates_expanded)"
    by code_simp
  have position: "and_or_path nested_dates [True]"
    "descend nested_dates [True] = Inr (task_leaf ''end'' ''12/31/2021'')"
    by (simp_all add: nested_dates_def is_and_or_def py_getitem_def)
  note nested = macro_expand_task_dates [OF task_query_hyps position task_leaf_hyps _
      task_leaf_right, where ?p1.0 = "''12''" and ?p2.0 = "''31''" and ?p3.0 = "''2021''"
      and month = 12 and day = 31 and year = 2021 and d = "PDate 2021 12 31"]
  have rewritten: "expand_task_dates (task_leaf ''end'' ''12/31/2021'')
      = Inr (PDict [(''op'', PDict [(''name'', PStr ''='')]),
                    (''left'', PStr ''end_date''), (''right'', PDate 2021 12 31)])"
    using nested [THEN conjunct1]
    by (simp add: task_leaf_def set_item_def
        int_of_str_def strip_def is_space_def digit_of_def py_date_def fits_c_int_def
        days_in_month_def)
  from nested [THEN conjunct2, THEN conjunct2, THEN conjunct2, THEN conjunct2,
      THEN conjunct1, rule_format, OF _ run]
  obtain exp' leaf' where
    stored: "task_query nested_dates_expanded
             = set_item (task_query nested_dates) ''filters''
                 (set_item (PDict [(''expression'', nested_dates)]) ''expression'' exp')"
    and leaf': "expand_task_dates (task_leaf ''end'' ''12/31/2021'') = Inr leaf'"
      "descend exp' [True] = Inr leaf'"
    by auto
  from stored have "exp' = nested_dates_expanded"
    by (simp add: task_query_def set_item_def)
  with leaf' rewritten have below: "descend nested_dates_expanded [True]
     = Inr (PDict [(''op'', PDict [(''name'', PStr ''='')]),
                   (''left'', PStr ''end_date''), (''right'', PDate 2021 12 31)])"
    by simp
  from full month_day day four run position(2) below show ?thesis
    by simp
qed

text \<open>In macro expansion the date is constructed outside the guarded block: a date
  that is not in the calendar raises the ValueError of the constructor.\<close>

lemma macro_expand_invalid_date:
  "macro_expand_object_query (task_query (task_leaf ''start'' ''2/30/2021'')) = Inl ValueError"
  by code_simp

section \<open>Sanitization of identifiers\<close>

lemma clean_filters_node:
  "py_truthy x \<Longrightarrow> is_dict x \<Longrightarrow>
   clean_filters e x =
     bind_err (clean_node e x)
       (\<lambda>cleaned. bind_err (py_get cleaned ''left'' PNone)
         (\<lambda>left. bind_err (clean_filters e left)
           (\<lambda>left'. bind_err (py_get cleaned ''right'' PNone)
             (\<lambda>right. bind_err (clean_filters e right)
               (\<lambda>right'. Inr (store_back (store_back cleaned ''left'' left')
                               ''right'' right'))))))"
  by (subst clean_filters.simps) simp

lemma clean_filters_skip:
  "\<not> py_truthy x \<or> \<not> is_dict x \<Longrightarrow> clean_filters e x = Inr x"
  by (subst clean_filters.simps) simp

lemma map_err_append_error:
  "map_err f good = Inr ys \<Longrightarrow> f bad = Inl err \<Longrightarrow> map_err f (good @ bad # rest) = Inl err"
  by (induction good arbitrary: ys) (auto simp: bind_err_def split: sum.splits)

lemma py_int_errors: "py_int v = Inl err \<Longrightarrow> err = ValueError \<or> err = TypeError"
  by (auto simp: py_int_def int_of_str_def Let_def split: pyval.splits if_splits option.splits)

lemma py_get_set_item_same:
  "is_dict v \<Longrightarrow> py_get (set_item v k x) k dflt = Inr x"
  by (auto simp: py_get_def set_item_def is_dict_def map_of_dict_set split: pyval.splits)

lemma py_get_store_back_other:
  "k' \<noteq> k \<Longrightarrow> py_get (store_back v k x) k' dflt = py_get v k' dflt"
  by (auto simp: py_get_def store_back_def map_of_dict_set split: pyval.splits)

lemma py_get_store_back_same:
  "py_get v k PNone = Inr old \<Longrightarrow> old \<noteq> PNone \<Longrightarrow> py_get (store_back v k x) k PNone = Inr x"
  by (auto simp: py_get_def store_back_def map_of_dict_set split: pyval.splits option.splits)

lemma py_get_is_dict: "py_get v k dflt = Inr x \<Longrightarrow> is_dict v"
  by (auto simp: py_get_def is_dict_def split: pyval.splits)

lemma py_get_store_back_absent:
  "py_get v k PNone = Inr PNone \<Longrightarrow> py_get (store_back v k PNone) k PNone = Inr PNone"
  by (auto simp: py_get_def store_back_def map_of_dict_set split: pyval.splits option.splits)

lemma py_get_total: "is_dict v \<Longrightarrow> \<exists>x. py_get v k dflt = Inr x"
  by (cases v) (auto simp: py_get_def is_dict_def split: option.splits)

text \<open>
  C5 (as amended). At every node that sanitization reaches (a non-empty dictionary),
  after the slugs are resolved, the entries of \<open>ids\<close> go through \<open>int\<close> in order. When
  the first entry that does not convert raises ValueError (a string that is not an
  integer literal) and the operator of the node is \<open>relevant\<close>, sanitization fails with
  the bad-query error that names the object type of the node; with any other operator
  the ValueError is raised again unchanged. When the first entry that does not convert
  raises TypeError (null, a list, a dictionary), the TypeError propagates whatever the
  operator. When every entry converts and sanitization succeeds, the node carries the
  list of integers as \<open>ids\<close>, and its left and right children are the sanitized
  children.
\<close>

theorem clean_filters_ids:
  assumes node: "py_truthy expression" "is_dict expression"
    and slugs: "py_get expression ''slugs'' PNone = Inr slugs"
    and resolved: "(if py_truthy slugs then extend_ids e expression slugs else Inr expression)
                   = Inr resolved"
    and ids: "py_get resolved ''ids'' (PList []) = Inr ids" "py_iter ids = Inr entries"
  shows
    "(\<forall>good bad rest ns opv name object_name.
        entries = good @ bad # rest \<and> map_err py_int good = Inr ns
        \<and> py_int bad = Inl ValueError
        \<and> py_get resolved ''op'' (PDict []) = Inr opv \<and> py_get opv ''name'' (PStr []) = Inr name
        \<and> py_get resolved ''object_name'' (PStr []) = Inr object_name
        \<longrightarrow> clean_filters e expression
            = (if name = PStr ''relevant'' then Inl (invalid_relevant object_name)
               else Inl ValueError))
     \<and> (\<forall>good bad rest ns.
        entries = good @ bad # rest \<and> map_err py_int good = Inr ns \<and> py_int bad = Inl TypeError
        \<longrightarrow> clean_filters e expression = Inl TypeError)
     \<and> (\<forall>ns result.
        map_err py_int entries = Inr ns \<and> clean_filters e expression = Inr result
        \<longrightarrow> py_get result ''ids'' PNone = Inr (PList (map PInt ns))
            \<and> (\<exists>left left'. py_get expression ''left'' PNone = Inr left
                  \<and> clean_filters e left = Inr left'
                  \<and> py_get result ''left'' PNone = Inr left')
            \<and> (\<exists>right right'. py_get expression ''right'' PNone = Inr right
                  \<and> clean_filters e right = Inr right'
                  \<and> py_get result ''right'' PNone = Inr right'))"
proof -
  have node_eq: "clean_node e expression = coerce_ids resolved"
    using slugs resolved by (simp add: clean_node_def)
  have coerce: "coerce_ids resolved =
     (case map_err py_int entries of
        Inr ns \<Rightarrow> Inr (set_item resolved ''ids'' (PList (map PInt ns)))
      | Inl ValueError \<Rightarrow>
          bind_err (py_get resolved ''op'' (PDict []))
            (\<lambda>opv. bind_err (py_get opv ''name'' (PStr []))
              (\<lambda>name. if name = PStr ''relevant''
                 then bind_err (py_get resolved ''object_name'' (PStr []))
                        (\<lambda>object_name. Inl (invalid_relevant object_name))
                 else Inl ValueError))
      | Inl err \<Rightarrow> Inl err)"
    using ids by (simp add: coerce_ids_def)
  have fails: "clean_node e expression = Inl err \<Longrightarrow> clean_filters e expression = Inl err" for err
    using node by (simp add: clean_filters_node)
  have value_error: "\<forall>good bad rest ns opv name object_name.
        entries = good @ bad # rest \<and> map_err py_int good = Inr ns
        \<and> py_int bad = Inl ValueError
        \<and> py_get resolved ''op'' (PDict []) = Inr opv \<and> py_get opv ''name'' (PStr []) = Inr name
        \<and> py_get resolved ''object_name'' (PStr []) = Inr object_name
        \<longrightarrow> clean_filters e expression
            = (if name = PStr ''relevant'' then Inl (invalid_relevant object_name)
               else Inl ValueError)"
  proof (intro allI impI)
    fix good bad rest ns opv name object_name
    assume h: "entries = good @ bad # rest \<and> map_err py_int good = Inr ns
        \<and> py_int bad = Inl ValueError
        \<and> py_get resolved ''op'' (PDict []) = Inr opv \<and> py_get opv ''name'' (PStr []) = Inr name
        \<and> py_get resolved ''object_name'' (PStr []) = Inr object_name"
    then have "map_err py_int entries = Inl ValueError"
      by (simp add: map_err_append_error)
    with h have "clean_node e expression
        = (if name = PStr ''relevant'' then Inl (invalid_relevant object_name) else Inl ValueError)"
      by (simp add: node_eq coerce)
    then show "clean_filters e expression
        = (if name = PStr ''relevant'' then Inl (invalid_relevant object_name) else Inl ValueError)"
      by (auto intro: fails split: if_splits)
  qed
  have type_error: "\<forall>good bad rest ns.
        entries = good @ bad # rest \<and> map_err py_int good = Inr ns \<and> py_int bad = Inl TypeError
        \<longrightarrow> clean_filters e expression = Inl TypeError"
  proof (intro allI impI)
    fix good bad rest ns
    assume h: "entries = good @ bad # rest \<and> map_err py_int good = Inr ns
               \<and> py_int bad = Inl TypeError"
    then have "map_err py_int entries = Inl TypeError"
      by (simp add: map_err_append_error)
    then have "clean_node e expression = Inl TypeError"
      by (simp add: node_eq coerce)
    then show "clean_filters e expression = Inl TypeError"
      by (rule fails)
  qed
  have coerced: "\<forall>ns result.
        map_err py_int entries = Inr ns \<and> clean_filters e expression = Inr result
        \<longrightarrow> py_get result ''ids'' PNone = Inr (PList (map PInt ns))
            \<and> (\<exists>left left'. py_get expression ''left'' PNone = Inr left
                  \<and> clean_filters e left = Inr left'
                  \<and> py_get result ''left'' PNone = Inr left')
            \<and> (\<exists>right right'. py_get expression ''right'' PNone = Inr right
                  \<and> clean_filters e right = Inr right'
                  \<and> py_get result ''right'' PNone = Inr right')"
  proof (intro allI impI)
    fix ns result
    assume h: "map_err py_int entries = Inr ns \<and> clean_filters e expression = Inr result"
    define cleaned where "cleaned = set_item resolved ''ids'' (PList (map PInt ns))"
    have cn: "clean_node e expression = Inr cleaned"
      using h by (simp add: node_eq coerce cleaned_def)
    have rd: "is_dict resolved"
      using ids(1) by (rule py_get_is_dict)
    have keep: "py_get cleaned k dflt = py_get expression k dflt" if "k \<noteq> ''ids''" for k dflt
      using cn that by (rule clean_node_get)
    obtain left where left: "py_get expression ''left'' PNone = Inr left"
      using node(2) py_get_total by blast
    obtain right where right: "py_get expression ''right'' PNone = Inr right"
      using node(2) py_get_total by blast
    from h cn left right obtain left' right'
      where l': "clean_filters e left = Inr left'"
        and r': "clean_filters e right = Inr right'"
        and res: "result = store_back (store_back cleaned ''left'' left') ''right'' right'"
      using node by (auto simp: clean_filters_node keep bind_err_def split: sum.splits)
    have ids_ok: "py_get result ''ids'' PNone = Inr (PList (map PInt ns))"
      by (simp add: res py_get_store_back_other cleaned_def py_get_set_item_same rd)
    have left_ok: "py_get result ''left'' PNone = Inr left'"
    proof (cases "left = PNone")
      case True
      then have "left' = PNone" using l' by (simp add: clean_filters_skip py_truthy_def)
      with True left show ?thesis
        by (simp add: res py_get_store_back_other py_get_store_back_absent keep)
    next
      case False
      with left show ?thesis
        by (simp add: res py_get_store_back_other py_get_store_back_same keep)
    qed
    have right_ok: "py_get result ''right'' PNone = Inr right'"
    proof (cases "right = PNone")
      case True
      then have "right' = PNone" using r' by (simp add: clean_filters_skip py_truthy_def)
      with True right show ?thesis
        by (simp add: res py_get_store_back_other py_get_store_back_absent keep)
    next
      case False
      with right show ?thesis
        by (simp add: res py_get_store_back_other py_get_store_back_same keep)
    qed
    show "py_get result ''ids'' PNone = Inr (PList (map PInt ns))
            \<and> (\<exists>left left'. py_get expression ''left'' PNone = Inr left
                  \<and> clean_filters e left = Inr left'
                  \<and> py_get result ''left'' PNone = Inr left')
            \<and> (\<exists>right right'. py_get expression ''right'' PNone = Inr right
                  \<and> clean_filters e right = Inr right'
                  \<and> py_get result ''right'' PNone = Inr right')"
      using ids_ok left l' left_ok right r' right_ok by blast
  qed
  from value_error type_error coerced show ?thesis
    by (intro conjI)
qed

lemma ids_leaf_hyps:
  "py_truthy (ids_leaf operator entries)"
  "is_dict (ids_leaf operator entries)"
  "py_get (ids_leaf operator entries) ''slugs'' PNone = Inr PNone"
  "(if py_truthy PNone then extend_ids e (ids_leaf operator entries) PNone
    else Inr (ids_leaf operator entries)) = Inr (ids_leaf operator entries)"
  "py_get (ids_leaf operator entries) ''ids'' (PList []) = Inr (PList entries)"
  "py_iter (PList entries) = Inr entries"
  by (simp_all add: ids_leaf_def py_truthy_def is_dict_def py_get_def py_iter_def)

theorem clean_filters_ids_witness:
  "clean_filters example_env (ids_leaf ''relevant'' [PInt 1, PStr ''x''])
     = Inl (BadQueryException [Fmt ''Invalid relevant filter for {}'' [PStr ''Facility'']])
   \<and> clean_filters example_env (ids_leaf ''='' [PInt 1, PStr ''x'']) = Inl ValueError
   \<and> clean_filters example_env (ids_leaf ''relevant'' [PInt 1, PList []]) = Inl TypeError
   \<and> py_get (ids_leaf ''relevant'' [PStr ''7'', PInt 2]) ''ids'' PNone
       = Inr (PList [PStr ''7'', PInt 2])
   \<and> bind_err (clean_filters example_env (ids_leaf ''relevant'' [PStr ''7'', PInt 2]))
         (\<lambda>result. py_get result ''ids'' PNone)
       = Inr (PList [PInt 7, PInt 2])"
proof -
  have bad_x: "py_int (PStr ''x'') = Inl ValueError" by code_simp
  have bad_list: "py_int (PList []) = Inl TypeError" by code_simp
  have one: "map_err py_int [PInt 1] = Inr [1]" by code_simp
  have relevant: "clean_filters example_env (ids_leaf ''relevant'' [PInt 1, PStr ''x''])
     = Inl (invalid_relevant (PStr ''Facility''))"
    using clean_filters_ids [where e = example_env and expression = "ids_leaf ''relevant'' [PInt 1, PStr ''x'']"
        and slugs = PNone and resolved = "ids_leaf ''relevant'' [PInt 1, PStr ''x'']" and ids = "PList [PInt 1, PStr ''x'']"
        and entries = "[PInt 1, PStr ''x'']", OF ids_leaf_hyps,
        THEN conjunct1, rule_format,
        of "[PInt 1]" "PStr ''x''" "[]" "[1]" "PDict [(''name'', PStr ''relevant'')]"
          "PStr ''relevant''" "PStr ''Facility''"]
      bad_x one
    by (simp add: ids_leaf_def py_get_def)
  have other: "clean_filters example_env (ids_leaf ''='' [PInt 1, PStr ''x'']) = Inl ValueError"
    using clean_filters_ids [where e = example_env and expression = "ids_leaf ''='' [PInt 1, PStr ''x'']"
        and slugs = PNone and resolved = "ids_leaf ''='' [PInt 1, PStr ''x'']" and ids = "PList [PInt 1, PStr ''x'']"
        and entries = "[PInt 1, PStr ''x'']", OF ids_leaf_hyps,
        THEN conjunct1, rule_format,
        of "[PInt 1]" "PStr ''x''" "[]" "[1]" "PDict [(''name'', PStr ''='')]"
          "PStr ''=''" "PStr ''Facility''"]
      bad_x one
    by (simp add: ids_leaf_def py_get_def)
  have not_a_number: "clean_filters example_env (ids_leaf ''relevant'' [PInt 1, PList []])
                      = Inl TypeError"
    using clean_filters_ids [where e = example_env and expression = "ids_leaf ''relevant'' [PInt 1, PList []]"
        and slugs = PNone and resolved = "ids_leaf ''relevant'' [PInt 1, PList []]" and ids = "PList [PInt 1, PList []]"
        and entries = "[PInt 1, PList []]", OF ids_leaf_hyps,
        THEN conjunct2, THEN conjunct1, rule_format, of "[PInt 1]" "PList []" "[]" "[1]"]
      bad_list one
    by simp
  have before: "py_get (ids_leaf ''relevant'' [PStr ''7'', PInt 2]) ''ids'' PNone
       = Inr (PList [PStr ''7'', PInt 2])"
    by (simp add: ids_leaf_def py_get_def)
  have nums: "map_err py_int [PStr ''7'', PInt 2] = Inr [7, 2]" by code_simp
  define result where "result = ids_leaf ''relevant'' [PInt 7, PInt 2]"
  have ok: "clean_filters example_env (ids_leaf ''relevant'' [PStr ''7'', PInt 2]) = Inr result"
    unfolding result_def by code_simp
  have after: "py_get result ''ids'' PNone = Inr (PList (map PInt [7, 2]))"
    using clean_filters_ids [where e = example_env and expression = "ids_leaf ''relevant'' [PStr ''7'', PInt 2]"
        and slugs = PNone and resolved = "ids_leaf ''relevant'' [PStr ''7'', PInt 2]" and ids = "PList [PStr ''7'', PInt 2]"
        and entries = "[PStr ''7'', PInt 2]", OF ids_leaf_hyps,
        THEN conjunct2, THEN conjunct2, rule_format, of "[7, 2]" result]
      nums ok
    by simp
  from relevant other not_a_number before ok after show ?thesis
    by (simp add: invalid_relevant_def)
qed

theorem clean_filters_null_id_counterexample:
  "clean_filters example_env
     (PDict [(''op'', PDict [(''name'', PStr ''relevant'')]), (''object_name'', PStr ''Facility''),
             (''ids'', PList [PNone])])
   = Inl TypeError"
  by code_simp

section \<open>Expressions without operator\<close>

lemma py_contains_dict: "py_contains (PDict d) k = Inr (map_of d k \<noteq> None)"
  by (simp add: py_contains_def)

lemma ordered_query_filter:
  "ordered_query e g cls f order_by = Inr q \<Longrightarrow> q_filter q = f \<and> q_class q = cls_name cls"
  by (auto simp: ordered_query_def apply_order_by_def Let_def bind_err_def
      split: if_splits sum.splits)

lemma ordered_query_plain:
  "\<not> py_truthy order_by \<Longrightarrow>
   ordered_query e g cls f order_by
   = Inr \<lparr>q_class = cls_name cls, q_filter = f, q_joins = [], q_order = []\<rparr>"
  by (simp add: ordered_query_def)

lemma get_objects_no_expression:
  assumes "py_getitem oq ''object_name'' = Inr name"
    and "py_get oq ''filters'' (PDict []) = Inr filters"
    and "py_get filters ''expression'' PNone = Inr PNone"
  shows "get_objects e query g oq = Inr (EmptySet, g)"
  using assms by (simp add: get_objects_def)

text \<open>
  C9. An expression that is a dictionary without the key \<open>op\<close> compiles to no filter
  (\<open>None\<close>): the query that is executed has the class of the object query and no filter,
  and the result is every row the database returns for it that passes the permission
  check; without \<open>order_by\<close> the query has no join and no ordering either. An object
  query without expression yields the empty set instead.
\<close>

theorem opless_expression_no_filter:
  assumes "py_getitem oq ''object_name'' = Inr name"
    and "object_map_getitem e name = Inr cls"
    and "py_get oq ''filters'' (PDict []) = Inr filters"
    and "py_get filters ''expression'' PNone = Inr (PDict d)"
    and "map_of d ''op'' = None"
    and "py_get oq ''order_by'' PNone = Inr order_by"
    and "ordered_query e g cls None order_by = Inr q"
    and "py_get oq ''permissions'' (PStr ''read'') = Inr p"
    and "db_execute e q = Inr rows"
  shows "build_expression e query g (PDict d) cls sf = Inr (None, g)
       \<and> q_filter q = None \<and> q_class q = cls_name cls
       \<and> (\<not> py_truthy order_by \<longrightarrow> q_joins q = [] \<and> q_order q = [])
       \<and> get_objects e query g oq = Inr (ObjList (permitted e p rows), g)
       \<and> (\<forall>name' filters' oq'. py_getitem oq' ''object_name'' = Inr name'
            \<and> py_get oq' ''filters'' (PDict []) = Inr filters'
            \<and> py_get filters' ''expression'' PNone = Inr PNone
           \<longrightarrow> get_objects e query g oq' = Inr (EmptySet, g))"
proof -
  have none: "build_expression e query g (PDict d) cls sf = Inr (None, g)" for sf
    using assms(5) by (simp add: build_expression_no_op py_contains_dict)
  have dict: "is_dict oq"
    using assms(1) by (rule py_getitem_is_dict)
  then obtain sf' where sf': "py_get oq ''fields'' (PList []) = Inr sf'"
    using py_get_total by blast
  have run: "get_objects e query g oq = Inr (ObjList (permitted e p rows), g)"
    using assms none [of sf'] sf' by (simp add: get_objects_def)
  have plain: "\<not> py_truthy order_by \<longrightarrow> q_joins q = [] \<and> q_order q = []"
    using assms(7) by (auto simp: ordered_query_plain)
  show ?thesis
    using none run plain ordered_query_filter [OF assms(7)] get_objects_no_expression
    by blast
qed

theorem opless_expression_no_filter_witness:
  "get_objects example_env [] None (facility_query [(''filters'', PDict [(''expression'', PDict [])])])
     = Inr (ObjList [facility 1, facility 2, facility 4], None)
   \<and> get_objects example_env [] None
       (facility_query [(''filters'', PDict [(''expression'', PDict [(''left'', PStr ''title'')])])])
     = Inr (ObjList [facility 1, facility 2, facility 4], None)
   \<and> get_objects example_env [] None (facility_query [(''filters'', PDict [])])
     = Inr (EmptySet, None)
   \<and> get_ids example_env None
       [facility_query [(''filters'', PDict [(''expression'', PDict [])])], facility_query []]
     = Inr [facility_query [(''filters'', PDict [(''expression'', PDict [])]),
                            (''ids'', PList [PInt 1, PInt 2, PInt 4])],
            facility_query [(''ids'', PList [])]]"
proof -
  let ?plain = "\<lparr>q_class = ''Facility'', q_filter = None, q_joins = [], q_order = []\<rparr>"
  let ?rows = "[facility 1, facility 2, facility 3, facility 4]"
  have rows: "db_execute example_env ?plain = Inr ?rows"
    by (simp add: example_env_def example_execute_def example_rows_def)
  have cls: "object_map_getitem example_env (PStr ''Facility'') = Inr Facility"
    by (simp add: object_map_getitem_def example_env_def)
  have plain: "ordered_query example_env None Facility None PNone = Inr ?plain"
    by (simp add: ordered_query_def py_truthy_def Facility_def)
  have permitted: "permitted example_env (PStr ''read'') ?rows
                   = [facility 1, facility 2, facility 4]"
    by (simp add: permitted_def example_env_def facility_def)
  note inst = opless_expression_no_filter [where e = example_env and name = "PStr ''Facility''"
      and cls = Facility and order_by = PNone and q = ?plain and p = "PStr ''read''"
      and rows = ?rows and g = None and query = "[]", OF _ cls _ _ _ _ plain _ rows]
  have empty: "get_objects example_env [] None
                 (facility_query [(''filters'', PDict [(''expression'', PDict [])])])
               = Inr (ObjList [facility 1, facility 2, facility 4], None)"
    using inst [where oq = "facility_query [(''filters'', PDict [(''expression'', PDict [])])]"
        and filters = "PDict [(''expression'', PDict [])]" and d = "[]"] permitted
    by (simp add: facility_query_def py_getitem_def py_get_def Facility_def)
  have opless: "get_objects example_env [] None
       (facility_query [(''filters'', PDict [(''expression'', PDict [(''left'', PStr ''title'')])])])
     = Inr (ObjList [facility 1, facility 2, facility 4], None)"
    using inst [where oq = "facility_query
                 [(''filters'', PDict [(''expression'', PDict [(''left'', PStr ''title'')])])]"
        and filters = "PDict [(''expression'', PDict [(''left'', PStr ''title'')])]"
        and d = "[(''left'', PStr ''title'')]"] permitted
    by (simp add: facility_query_def py_getitem_def py_get_def Facility_def)
  have absent: "get_objects example_env [] None (facility_query [(''filters'', PDict [])])
                = Inr (EmptySet, None)"
    by code_simp
  have batch: "get_ids example_env None
       [facility_query [(''filters'', PDict [(''expression'', PDict [])])], facility_query []]
     = Inr [facility_query [(''filters'', PDict [(''expression'', PDict [])]),
                            (''ids'', PList [PInt 1, PInt 2, PInt 4])],
            facility_query [(''ids'', PList [])]]"
    by code_simp
  from empty opless absent batch show ?thesis by simp
qed

section \<open>Permission mode\<close>

lemma permitted_read: "p \<noteq> PStr ''update'' \<Longrightarrow> permitted e p rows = filter (is_allowed_read_for e) rows"
  by (simp add: permitted_def)

lemma get_objects_read_mode:
  assumes "p \<noteq> PStr ''update''"
  shows "get_objects e query g (set_item oq ''permissions'' p)
         = get_objects e query g (set_item oq ''permissions'' (PStr ''read''))"
proof (cases "is_dict oq")
  case True
  then show ?thesis
    using assms
    by (simp add: get_objects_def py_getitem_set_item_other py_get_set_item_other
        py_get_set_item_same permitted_read cong: if_cong)
next
  case False
  then show ?thesis
    by (cases oq) (simp_all add: set_item_def is_dict_def)
qed

lemma get_objects_rows:
  assumes "get_objects e query g oq = Inr (ObjList objs, g')"
    and "py_get oq ''permissions'' (PStr ''read'') = Inr p"
  shows "\<exists>q rows. db_execute e q = Inr rows \<and> objs = permitted e p rows"
  using assms
  by (auto simp: get_objects_def bind_err_def split: sum.splits if_splits prod.splits)

lemma get_objects_absent_permissions:
  assumes "map_of d ''permissions'' = None"
  shows "get_objects e query g (PDict d)
         = get_objects e query g (set_item (PDict d) ''permissions'' (PStr ''read''))"
proof -
  have "py_get (PDict d) ''permissions'' (PStr ''read'') = Inr (PStr ''read'')"
    using assms by (simp add: py_get_def)
  then show ?thesis
    by (simp add: get_objects_def py_getitem_set_item_other py_get_set_item_other
        py_get_set_item_same is_dict_def cong: if_cong)
qed

text \<open>
  C10. The permission check is chosen by one test: the rows of a successful
  \<open>_get_objects\<close> are filtered with the update check when \<open>permissions\<close> is exactly the
  string \<open>update\<close>, and with the read check for every other value. Any value other than
  \<open>update\<close> gives the result of \<open>read\<close>, and so does an object query without the
  key.
\<close>

theorem permissions_mode:
  "(\<forall>objs g' p. get_objects e query g oq = Inr (ObjList objs, g')
        \<and> py_get oq ''permissions'' (PStr ''read'') = Inr p
      \<longrightarrow> (\<exists>q rows. db_execute e q = Inr rows
             \<and> objs = (if p = PStr ''update'' then filter (is_allowed_update_for e) rows
                       else filter (is_allowed_read_for e) rows)))
   \<and> (\<forall>p. p \<noteq> PStr ''update''
      \<longrightarrow> get_objects e query g (set_item oq ''permissions'' p)
          = get_objects e query g (set_item oq ''permissions'' (PStr ''read'')))
   \<and> (\<forall>d. oq = PDict d \<and> map_of d ''permissions'' = None
      \<longrightarrow> get_objects e query g oq
          = get_objects e query g (set_item oq ''permissions'' (PStr ''read'')))"
proof (intro conjI allI impI)
  fix objs g' p
  assume "get_objects e query g oq = Inr (ObjList objs, g')
          \<and> py_get oq ''permissions'' (PStr ''read'') = Inr p"
  then obtain q rows where "db_execute e q = Inr rows" and "objs = permitted e p rows"
    using get_objects_rows by blast
  then show "\<exists>q rows. db_execute e q = Inr rows
             \<and> objs = (if p = PStr ''update'' then filter (is_allowed_update_for e) rows
                       else filter (is_allowed_read_for e) rows)"
    by (auto simp: permitted_def)
next
  fix p :: pyval
  assume "p \<noteq> PStr ''update''"
  then show "get_objects e query g (set_item oq ''permissions'' p)
          = get_objects e query g (set_item oq ''permissions'' (PStr ''read''))"
    by (rule get_objects_read_mode)
next
  fix d
  assume "oq = PDict d \<and> map_of d ''permissions'' = None"
  then show "get_objects e query g oq
          = get_objects e query g (set_item oq ''permissions'' (PStr ''read''))"
    using get_objects_absent_permissions by blast
qed

theorem permissions_mode_witness:
  "get_objects example_env [] None (all_facilities [])
     = Inr (ObjList [facility 1, facility 2, facility 4], None)
   \<and> get_objects example_env [] None (all_facilities [(''permissions'', PStr ''read'')])
     = Inr (ObjList [facility 1, facility 2, facility 4], None)
   \<and> get_objects example_env [] None (all_facilities [(''permissions'', PStr ''Update'')])
     = Inr (ObjList [facility 1, facility 2, facility 4], None)
   \<and> get_objects example_env [] None (all_facilities [(''permissions'', PNone)])
     = Inr (ObjList [facility 1, facility 2, facility 4], None)
   \<and> get_objects example_env [] None (all_facilities [(''permissions'', PStr ''update'')])
     = Inr (ObjList [facility 1], None)"
proof -
  note mode = permissions_mode [of example_env "[]" None "all_facilities []"]
  have set_read: "set_item (all_facilities []) ''permissions'' (PStr ''read'')
                  = all_facilities [(''permissions'', PStr ''read'')]"
    and set_other: "set_item (all_facilities []) ''permissions'' (PStr ''Update'')
                  = all_facilities [(''permissions'', PStr ''Update'')]"
    and set_null: "set_item (all_facilities []) ''permissions'' PNone
                  = all_facilities [(''permissions'', PNone)]"
    by (simp_all add: all_facilities_def facility_query_def set_item_def)
  have read: "get_objects example_env [] None (all_facilities [(''permissions'', PStr ''read'')])
              = Inr (ObjList [facility 1, facility 2, facility 4], None)"
    by code_simp
  have update: "get_objects example_env [] None (all_facilities [(''permissions'', PStr ''update'')])
              = Inr (ObjList [facility 1], None)"
    by code_simp
  have absent: "get_objects example_env [] None (all_facilities [])
                = get_objects example_env [] None (all_facilities [(''permissions'', PStr ''read'')])"
  proof -
    let ?d = "[(''object_name'', PStr ''Facility''),
               (''filters'', PDict [(''expression'', PDict [])])]"
    have "all_facilities [] = PDict ?d \<and> map_of ?d ''permissions'' = None"
      by (simp add: all_facilities_def facility_query_def)
    then have "get_objects example_env [] None (all_facilities [])
               = get_objects example_env [] None
                   (set_item (all_facilities []) ''permissions'' (PStr ''read''))"
      using mode [THEN conjunct2, THEN conjunct2, rule_format, of ?d] by blast
    then show ?thesis
      by (simp only: set_read)
  qed
  have other: "get_objects example_env [] None (all_facilities [(''permissions'', PStr ''Update'')])
                = get_objects example_env [] None (all_facilities [(''permissions'', PStr ''read'')])"
    using mode [THEN conjunct2, THEN conjunct1, rule_format, of "PStr ''Update''"]
    by (simp add: set_read set_other)
  have null: "get_objects example_env [] None (all_facilities [(''permissions'', PNone)])
                = get_objects example_env [] None (all_facilities [(''permissions'', PStr ''read'')])"
    using mode [THEN conjunct2, THEN conjunct1, rule_format, of PNone]
    by (simp add: set_read set_null)
  from read update absent other null show ?thesis by simp
qed

section \<open>The loop over the batch\<close>

lemma get_ids_from_done: "\<not> i < length query \<Longrightarrow> get_ids_from e i g query = Inr query"
  by (subst get_ids_from.simps) simp

lemma get_ids_from_step:
  "i < length query \<Longrightarrow>
   get_ids_from e i g query =
     bind_err (get_objects e query g (query ! i))
       (\<lambda>(objs, g'). bind_err (py_get (query ! i) ''limit'' PNone)
         (\<lambda>limit. bind_err (apply_limit objs limit)
           (\<lambda>objs'. get_ids_from e (Suc i) g'
                       (query[i := set_item (query ! i) ''ids'' (ids_of objs')]))))"
  by (subst get_ids_from.simps) simp

lemma get_ids_from_stepE:
  assumes "get_ids_from e i g query = Inr result" and "i < length query"
  obtains objs g' limit objs' where
    "get_objects e query g (query ! i) = Inr (objs, g')"
    "py_get (query ! i) ''limit'' PNone = Inr limit"
    "apply_limit objs limit = Inr objs'"
    "get_ids_from e (Suc i) g' (query[i := set_item (query ! i) ''ids'' (ids_of objs')]) = Inr result"
  using assms
  by (auto simp: get_ids_from_step bind_err_def split: sum.splits prod.splits)

lemma get_objects_is_dict: "get_objects e query g oq = Inr r \<Longrightarrow> is_dict oq"
  by (auto simp: get_objects_def bind_err_def is_dict_def py_getitem_def
      split: sum.splits pyval.splits)

lemma ids_of_ints: "\<exists>ids. ids_of objs = PList (map PInt ids)"
proof
  show "ids_of objs = PList (map PInt (map obj_id (objects_iter objs)))"
    by (simp add: ids_of_def)
qed

lemma get_ids_from_result:
  "get_ids_from e i g query = Inr result \<Longrightarrow>
   length result = length query
   \<and> (\<forall>j<i. j < length query \<longrightarrow> result ! j = query ! j)
   \<and> (\<forall>j. i \<le> j \<and> j < length query \<longrightarrow>
        is_dict (query ! j)
        \<and> (\<exists>ids. result ! j = set_item (query ! j) ''ids'' (PList (map PInt ids))))"
proof (induction e i g query rule: get_ids_from.induct)
  case (1 e i g query)
  show ?case
  proof (cases "i < length query")
    case False
    with "1.prems" show ?thesis
      by (auto simp: get_ids_from_done)
  next
    case True
    from "1.prems" True obtain objs g' limit objs' where
      step: "get_objects e query g (query ! i) = Inr (objs, g')"
        "py_get (query ! i) ''limit'' PNone = Inr limit"
        "apply_limit objs limit = Inr objs'"
      and rest: "get_ids_from e (Suc i) g'
                   (query[i := set_item (query ! i) ''ids'' (ids_of objs')]) = Inr result"
      by (rule get_ids_from_stepE)
    let ?query' = "query[i := set_item (query ! i) ''ids'' (ids_of objs')]"
    have ih: "length result = length ?query'
      \<and> (\<forall>j<Suc i. j < length ?query' \<longrightarrow> result ! j = ?query' ! j)
      \<and> (\<forall>j. Suc i \<le> j \<and> j < length ?query' \<longrightarrow>
           is_dict (?query' ! j)
           \<and> (\<exists>ids. result ! j = set_item (?query' ! j) ''ids'' (PList (map PInt ids))))"
      using "1.IH" [OF True step(1) refl step(2) step(3) rest] .
    have dict: "is_dict (query ! i)"
      using step(1) by (rule get_objects_is_dict)
    obtain ids where ids: "ids_of objs' = PList (map PInt ids)"
      using ids_of_ints by blast
    have at_i: "result ! i = set_item (query ! i) ''ids'' (PList (map PInt ids))"
      using ih True ids by simp
    show ?thesis
    proof (intro conjI allI impI)
      show "length result = length query" using ih by simp
    next
      fix j assume "j < i" "j < length query"
      then show "result ! j = query ! j" using ih by simp
    next
      fix j assume j: "i \<le> j \<and> j < length query"
      show "is_dict (query ! j)"
      proof (cases "j = i")
        case True
        then show ?thesis using dict by simp
      next
        case False
        with j ih show ?thesis by simp
      qed
    next
      fix j assume j: "i \<le> j \<and> j < length query"
      show "\<exists>ids. result ! j = set_item (query ! j) ''ids'' (PList (map PInt ids))"
      proof (cases "j = i")
        case True
        then show ?thesis using at_i by blast
      next
        case False
        with j ih show ?thesis by simp
      qed
    qed
  qed
qed

lemma map_err_Inr:
  "map_err f xs = Inr ys \<Longrightarrow> length ys = length xs \<and> (\<forall>i<length xs. f (xs ! i) = Inr (ys ! i))"
proof (induction xs arbitrary: ys)
  case Nil
  then show ?case by simp
next
  case (Cons x xs)
  then obtain y ys' where y: "f x = Inr y" and ys': "map_err f xs = Inr ys'" and ys: "ys = y # ys'"
    by (auto simp: bind_err_def split: sum.splits)
  from Cons.IH [OF ys'] y ys show ?case
    by (auto simp: nth_Cons split: nat.splits)
qed

lemma macro_expand_keeps:
  "macro_expand_object_query oq = Inr oq' \<Longrightarrow> k \<noteq> ''filters''
   \<Longrightarrow> py_getitem oq' k = py_getitem oq k"
  by (auto simp: macro_expand_object_query_def bind_err_def py_getitem_set_item_other
      split: sum.splits if_splits)

lemma clean_object_query_keeps:
  "clean_object_query e oq = Inr oq' \<Longrightarrow> k \<noteq> ''filters''
   \<Longrightarrow> py_getitem oq' k = py_getitem oq k"
  by (auto simp: clean_object_query_def bind_err_def py_getitem_set_item_other
      dest!: macro_expand_keeps split: sum.splits if_splits)

lemma get_ids_entries:
  assumes run: "get_ids e g query = Inr result"
  shows "length result = length query
      \<and> (\<forall>i<length query. \<exists>ids.
            result ! i = set_item (query ! i) ''ids'' (PList (map PInt ids))
            \<and> py_getitem (result ! i) ''ids'' = Inr (PList (map PInt ids))
            \<and> (\<forall>k. k \<noteq> ''ids'' \<longrightarrow> py_getitem (result ! i) k = py_getitem (query ! i) k))"
proof -
  note inv = get_ids_from_result [OF run [unfolded get_ids_def]]
  show ?thesis
  proof (intro conjI allI impI)
    show "length result = length query" using inv by simp
  next
    fix i assume i: "i < length query"
    with inv have dict: "is_dict (query ! i)" by simp
    from inv i obtain ids
      where ids: "result ! i = set_item (query ! i) ''ids'' (PList (map PInt ids))"
      by blast
    have "py_getitem (result ! i) ''ids'' = Inr (PList (map PInt ids))"
      unfolding ids using dict by (rule py_getitem_set_item_same)
    moreover have "\<forall>k. k \<noteq> ''ids'' \<longrightarrow> py_getitem (result ! i) k = py_getitem (query ! i) k"
      unfolding ids by (simp add: py_getitem_set_item_other)
    ultimately show "\<exists>ids. result ! i = set_item (query ! i) ''ids'' (PList (map PInt ids))
            \<and> py_getitem (result ! i) ''ids'' = Inr (PList (map PInt ids))
            \<and> (\<forall>k. k \<noteq> ''ids'' \<longrightarrow> py_getitem (result ! i) k = py_getitem (query ! i) k)"
      using ids by blast
  qed
qed

lemma resolve_entries:
  assumes run: "resolve e g query = Inr result"
  shows "length result = length query
      \<and> (\<forall>i<length query. \<exists>ids.
            py_getitem (result ! i) ''ids'' = Inr (PList (map PInt ids))
            \<and> (\<forall>k. k \<noteq> ''ids'' \<and> k \<noteq> ''filters''
                  \<longrightarrow> py_getitem (result ! i) k = py_getitem (query ! i) k))"
proof -
  from run obtain cleaned where cleaned: "clean_query e query = Inr cleaned"
    and ids: "get_ids e g cleaned = Inr result"
    by (auto simp: resolve_def query_helper_init_def bind_err_def split: sum.splits)
  note c = map_err_Inr [OF cleaned [unfolded clean_query_def]]
  note l = get_ids_entries [OF ids]
  show ?thesis
  proof (intro conjI allI impI)
    show "length result = length query" using c l by simp
  next
    fix i assume i: "i < length query"
    then have ci: "clean_object_query e (query ! i) = Inr (cleaned ! i)"
      using c by simp
    have "i < length cleaned" using i c by simp
    with l obtain ids
      where r1: "py_getitem (result ! i) ''ids'' = Inr (PList (map PInt ids))"
        and r2: "\<forall>k. k \<noteq> ''ids'' \<longrightarrow> py_getitem (result ! i) k = py_getitem (cleaned ! i) k"
      by blast
    have "\<forall>k. k \<noteq> ''ids'' \<and> k \<noteq> ''filters''
                  \<longrightarrow> py_getitem (result ! i) k = py_getitem (query ! i) k"
    proof (intro allI impI)
      fix k :: string assume k: "k \<noteq> ''ids'' \<and> k \<noteq> ''filters''"
      then have "py_getitem (result ! i) k = py_getitem (cleaned ! i) k" using r2 by blast
      also have "\<dots> = py_getitem (query ! i) k"
        using ci k by (simp add: clean_object_query_keeps)
      finally show "py_getitem (result ! i) k = py_getitem (query ! i) k" .
    qed
    with r1 show "\<exists>ids. py_getitem (result ! i) ''ids'' = Inr (PList (map PInt ids))
            \<and> (\<forall>k. k \<noteq> ''ids'' \<and> k \<noteq> ''filters''
                  \<longrightarrow> py_getitem (result ! i) k = py_getitem (query ! i) k)"
      by blast
  qed
qed

text \<open>
  C4. When \<open>get_ids\<close> returns, the batch has the length of its input, and the entry at
  every position is the input entry of that position with \<open>ids\<close> set to a list of
  integers (possibly empty) and every other field unchanged. The same holds for the
  whole resolution, constructor included, where sanitization may in addition have
  rewritten \<open>filters\<close>. A run that fails returns no batch.
\<close>

theorem get_ids_keeps_batch:
  "(get_ids e g query = Inr result \<longrightarrow>
      length result = length query
      \<and> (\<forall>i<length query. \<exists>ids.
            result ! i = set_item (query ! i) ''ids'' (PList (map PInt ids))
            \<and> py_getitem (result ! i) ''ids'' = Inr (PList (map PInt ids))
            \<and> (\<forall>k. k \<noteq> ''ids'' \<longrightarrow> py_getitem (result ! i) k = py_getitem (query ! i) k)))
   \<and> (resolve e g query = Inr result \<longrightarrow>
      length result = length query
      \<and> (\<forall>i<length query. \<exists>ids.
            py_getitem (result ! i) ''ids'' = Inr (PList (map PInt ids))
            \<and> (\<forall>k. k \<noteq> ''ids'' \<and> k \<noteq> ''filters''
                  \<longrightarrow> py_getitem (result ! i) k = py_getitem (query ! i) k)))"
proof (rule conjI)
  show "get_ids e g query = Inr result \<longrightarrow>
      length result = length query
      \<and> (\<forall>i<length query. \<exists>ids.
            result ! i = set_item (query ! i) ''ids'' (PList (map PInt ids))
            \<and> py_getitem (result ! i) ''ids'' = Inr (PList (map PInt ids))
            \<and> (\<forall>k. k \<noteq> ''ids'' \<longrightarrow> py_getitem (result ! i) k = py_getitem (query ! i) k))"
    by (rule impI) (rule get_ids_entries)
next
  show "resolve e g query = Inr result \<longrightarrow>
      length result = length query
      \<and> (\<forall>i<length query. \<exists>ids.
            py_getitem (result ! i) ''ids'' = Inr (PList (map PInt ids))
            \<and> (\<forall>k. k \<noteq> ''ids'' \<and> k \<noteq> ''filters''
                  \<longrightarrow> py_getitem (result ! i) k = py_getitem (query ! i) k))"
    by (rule impI) (rule resolve_entries)
qed


lemma example_batch_run: "get_ids example_env None example_batch = Inr example_result"
  by code_simp

lemma example_batch_resolve: "resolve example_env None example_batch = Inr example_result"
  by code_simp

theorem get_ids_keeps_batch_witness:
  "get_ids example_env None example_batch = Inr example_result
   \<and> resolve example_env None example_batch = Inr example_result
   \<and> length example_result = length example_batch
   \<and> map (\<lambda>x. py_getitem x ''object_name'') example_result
       = map (\<lambda>x. py_getitem x ''object_name'') example_batch
   \<and> map (\<lambda>x. py_getitem x ''ids'') example_result
       = [Inr (PList [PInt 2, PInt 4]), Inr (PList [PInt 2, PInt 4]), Inr (PList [])]"
proof -
  have "length example_result = length example_batch"
    using get_ids_keeps_batch [of example_env None example_batch example_result]
      example_batch_run
    by blast
  moreover have "map (\<lambda>x. py_getitem x ''object_name'') example_result
       = map (\<lambda>x. py_getitem x ''object_name'') example_batch"
    by code_simp
  moreover have "map (\<lambda>x. py_getitem x ''ids'') example_result
       = [Inr (PList [PInt 2, PInt 4]), Inr (PList [PInt 2, PInt 4]), Inr (PList [])]"
    by code_simp
  ultimately show ?thesis
    using example_batch_run example_batch_resolve by simp
qed

section \<open>References to earlier entries\<close>

lemma relevant_previous_entry:
  assumes "py_getitem exp ''object_name'' = Inr (PStr ''__previous__'')"
    and "py_getitem exp ''ids'' = Inr (PList (PInt i # rest))"
    and "list_index query i = Inr entry"
    and "py_getitem entry ''object_name'' = Inr target_name"
    and "py_getitem entry ''ids'' = Inr target_ids"
  shows "relevant e query exp cls
         = bind_err (get_ids_related_to e (cls_name cls) target_name target_ids)
             (\<lambda>ids. Inr (SqlIdIn (cls_name cls) ids))"
  using assms by (simp add: relevant_def py_index_def list_index_def)

lemma build_expression_relevant:
  assumes "py_getitem exp ''op'' = Inr opv"
    and "py_getitem opv ''name'' = Inr (PStr ''relevant'')"
  shows "build_expression e query g exp cls sf
         = bind_err (relevant e query exp cls) (\<lambda>c. Inr (Some c, g))"
proof -
  have "build_expression e query g exp cls sf
        = build_leaf e query g exp cls sf (PStr ''relevant'')"
    using assms by (simp add: build_expression_leaf py_getitem_contains is_hashable_def)
  then show ?thesis
    by (simp add: build_leaf_def)
qed

text \<open>The entry at a position is resolved against the batch whose earlier entries are
  those of the result, and the \<open>ids\<close> stored for it are those of the objects found.\<close>

lemma get_ids_from_state:
  "get_ids_from e i g query = Inr result \<Longrightarrow> i \<le> j \<Longrightarrow> j < length query
   \<Longrightarrow> \<exists>g_j objs g' limit objs'.
         get_objects e (take j result @ drop j query) g_j (query ! j) = Inr (objs, g')
         \<and> py_get (query ! j) ''limit'' PNone = Inr limit
         \<and> apply_limit objs limit = Inr objs'
         \<and> result ! j = set_item (query ! j) ''ids'' (ids_of objs')"
proof (induction e i g query rule: get_ids_from.induct)
  case (1 e i g query)
  from "1.prems" have i: "i < length query" by simp
  from "1.prems"(1) i obtain objs g' limit objs' where
    step: "get_objects e query g (query ! i) = Inr (objs, g')"
      "py_get (query ! i) ''limit'' PNone = Inr limit"
      "apply_limit objs limit = Inr objs'"
    and rest: "get_ids_from e (Suc i) g'
                 (query[i := set_item (query ! i) ''ids'' (ids_of objs')]) = Inr result"
    by (rule get_ids_from_stepE)
  let ?query' = "query[i := set_item (query ! i) ''ids'' (ids_of objs')]"
  show ?case
  proof (cases "i = j")
    case True
    note inv = get_ids_from_result [OF "1.prems"(1)]
    have "take j result = take j query"
      using inv True i by (auto intro: nth_take_lemma)
    then have state: "take j result @ drop j query = query" by simp
    have "result ! i = ?query' ! i"
      using get_ids_from_result [OF rest] i by simp
    then have stored: "result ! j = set_item (query ! j) ''ids'' (ids_of objs')"
      using True i by simp
    show ?thesis
      using step stored True state by auto
  next
    case False
    from False "1.prems" have j: "Suc i \<le> j" "j < length ?query'" by simp_all
    from "1.IH" [OF i step(1) refl step(2) step(3) rest j]
    obtain g_j objs_j g_j' limit_j objs_j' where
      "get_objects e (take j result @ drop j ?query') g_j (?query' ! j) = Inr (objs_j, g_j')"
      "py_get (?query' ! j) ''limit'' PNone = Inr limit_j"
      "apply_limit objs_j limit_j = Inr objs_j'"
      "result ! j = set_item (?query' ! j) ''ids'' (ids_of objs_j')"
      by blast
    moreover have "drop j ?query' = drop j query" using j by simp
    moreover have "?query' ! j = query ! j" using j by simp
    ultimately show ?thesis by auto
  qed
qed

text \<open>
  C6. A \<open>relevant\<close> leaf with object name \<open>__previous__\<close> compiles to the membership in
  the identifiers that \<open>get_ids_related_to\<close> returns for the class of the query, and the
  object name and the \<open>ids\<close> of the batch entry at the index given by the first id of
  the leaf, not of the leaf. In a run of \<open>get_ids\<close>, the entry at position \<open>j\<close> is
  resolved against the batch in which the entries before \<open>j\<close> are those of the result;
  so for an index \<open>i < j\<close> the \<open>ids\<close> the leaf passes on are exactly those of the objects
  that the resolution and pagination of entry \<open>i\<close> produced.
\<close>

theorem relevant_previous:
  assumes "py_getitem exp ''object_name'' = Inr (PStr ''__previous__'')"
    and "py_getitem exp ''ids'' = Inr (PList (PInt i # rest))"
  shows "(\<forall>entry target_name target_ids.
            list_index query i = Inr entry
            \<and> py_getitem entry ''object_name'' = Inr target_name
            \<and> py_getitem entry ''ids'' = Inr target_ids
            \<longrightarrow> relevant e query exp cls
                = bind_err (get_ids_related_to e (cls_name cls) target_name target_ids)
                    (\<lambda>ids. Inr (SqlIdIn (cls_name cls) ids)))
       \<and> (\<forall>opv. py_getitem exp ''op'' = Inr opv
                \<and> py_getitem opv ''name'' = Inr (PStr ''relevant'')
            \<longrightarrow> build_expression e query g exp cls sf
                = bind_err (relevant e query exp cls) (\<lambda>c. Inr (Some c, g)))
       \<and> (\<forall>g0 result j target_name.
            get_ids e g0 query = Inr result \<and> j < length query \<and> 0 \<le> i \<and> nat i < j
            \<and> py_getitem (query ! nat i) ''object_name'' = Inr target_name
            \<longrightarrow> (\<exists>g_j objs_j g_j'.
                   get_objects e (take j result @ drop j query) g_j (query ! j)
                   = Inr (objs_j, g_j'))
                \<and> (\<exists>g_i objs g' limit objs'.
                      get_objects e (take (nat i) result @ drop (nat i) query) g_i
                        (query ! nat i) = Inr (objs, g')
                      \<and> py_get (query ! nat i) ''limit'' PNone = Inr limit
                      \<and> apply_limit objs limit = Inr objs'
                      \<and> py_getitem (result ! nat i) ''ids'' = Inr (ids_of objs')
                      \<and> relevant e (take j result @ drop j query) exp cls
                          = bind_err (get_ids_related_to e (cls_name cls) target_name
                                        (ids_of objs'))
                              (\<lambda>ids. Inr (SqlIdIn (cls_name cls) ids))))"
proof (intro conjI allI impI)
  fix entry target_name target_ids
  assume "list_index query i = Inr entry
            \<and> py_getitem entry ''object_name'' = Inr target_name
            \<and> py_getitem entry ''ids'' = Inr target_ids"
  with assms show "relevant e query exp cls
                = bind_err (get_ids_related_to e (cls_name cls) target_name target_ids)
                    (\<lambda>ids. Inr (SqlIdIn (cls_name cls) ids))"
    using relevant_previous_entry by blast
next
  fix opv
  assume "py_getitem exp ''op'' = Inr opv \<and> py_getitem opv ''name'' = Inr (PStr ''relevant'')"
  then show "build_expression e query g exp cls sf
                = bind_err (relevant e query exp cls) (\<lambda>c. Inr (Some c, g))"
    using build_expression_relevant by blast
next
  fix g0 result j target_name
  assume h: "get_ids e g0 query = Inr result \<and> j < length query \<and> 0 \<le> i \<and> nat i < j
            \<and> py_getitem (query ! nat i) ''object_name'' = Inr target_name"
  then show "\<exists>g_j objs_j g_j'.
                   get_objects e (take j result @ drop j query) g_j (query ! j)
                   = Inr (objs_j, g_j')"
    using get_ids_from_state [of e 0 g0 query result j] by (auto simp: get_ids_def)
next
  fix g0 result j target_name
  assume h: "get_ids e g0 query = Inr result \<and> j < length query \<and> 0 \<le> i \<and> nat i < j
            \<and> py_getitem (query ! nat i) ''object_name'' = Inr target_name"
  then have len: "length result = length query"
    using get_ids_entries by blast
  from h have i: "nat i < length query" by simp
  from h i obtain g_i objs g' limit objs' where
    entry: "get_objects e (take (nat i) result @ drop (nat i) query) g_i (query ! nat i)
            = Inr (objs, g')"
      "py_get (query ! nat i) ''limit'' PNone = Inr limit"
      "apply_limit objs limit = Inr objs'"
    and stored: "result ! nat i = set_item (query ! nat i) ''ids'' (ids_of objs')"
    using get_ids_from_state [of e 0 g0 query result "nat i"] by (auto simp: get_ids_def)
  have dict: "is_dict (query ! nat i)"
    using entry(1) by (rule get_objects_is_dict)
  have ids: "py_getitem (result ! nat i) ''ids'' = Inr (ids_of objs')"
    unfolding stored using dict by (rule py_getitem_set_item_same)
  have name: "py_getitem (result ! nat i) ''object_name'' = Inr target_name"
    unfolding stored using h by (simp add: py_getitem_set_item_other)
  let ?state = "take j result @ drop j query"
  have "length ?state = length query" using h len by simp
  moreover have "?state ! nat i = result ! nat i"
    using h len by (simp add: nth_append)
  moreover have "i < int (length query)"
    using h by linarith
  ultimately have at: "list_index ?state i = Inr (result ! nat i)"
    using h by (simp add: list_index_def)
  from assms at name ids have "relevant e ?state exp cls
      = bind_err (get_ids_related_to e (cls_name cls) target_name (ids_of objs'))
          (\<lambda>ids. Inr (SqlIdIn (cls_name cls) ids))"
    by (rule relevant_previous_entry)
  with entry ids show "\<exists>g_i objs g' limit objs'.
                      get_objects e (take (nat i) result @ drop (nat i) query) g_i
                        (query ! nat i) = Inr (objs, g')
                      \<and> py_get (query ! nat i) ''limit'' PNone = Inr limit
                      \<and> apply_limit objs limit = Inr objs'
                      \<and> py_getitem (result ! nat i) ''ids'' = Inr (ids_of objs')
                      \<and> relevant e (take j result @ drop j query) exp cls
                          = bind_err (get_ids_related_to e (cls_name cls) target_name
                                        (ids_of objs'))
                              (\<lambda>ids. Inr (SqlIdIn (cls_name cls) ids))"
    by blast
qed

theorem relevant_previous_witness:
  "get_ids example_env None example_batch = Inr example_result
   \<and> py_getitem (example_result ! 0) ''ids'' = Inr (PList [PInt 2, PInt 4])
   \<and> relevant example_env (take 1 example_result @ drop 1 example_batch)
         (previous_leaf [PInt 0]) Facility
       = bind_err (get_ids_related_to example_env ''Facility'' (PStr ''Facility'')
                     (PList [PInt 2, PInt 4]))
           (\<lambda>ids. Inr (SqlIdIn ''Facility'' ids))
   \<and> get_ids_related_to example_env ''Facility'' (PStr ''Facility'') (PList [PInt 2, PInt 4])
       = Inr [2, 4]
   \<and> get_ids_related_to example_env ''Facility'' (PStr ''__previous__'') (PList [PInt 0])
       = Inr []
   \<and> build_expression example_env (take 1 example_result @ drop 1 example_batch) None
         (previous_leaf [PInt 0]) Facility (PList [])
       = Inr (Some (SqlIdIn ''Facility'' [2, 4]), None)"
proof -
  let ?state = "take 1 example_result @ drop 1 example_batch"
  have leaf: "py_getitem (previous_leaf [PInt 0]) ''object_name'' = Inr (PStr ''__previous__'')"
    "py_getitem (previous_leaf [PInt 0]) ''ids'' = Inr (PList (PInt 0 # []))"
    by (simp_all add: previous_leaf_def py_getitem_def)
  have op: "py_getitem (previous_leaf [PInt 0]) ''op'' = Inr (PDict [(''name'', PStr ''relevant'')])
            \<and> py_getitem (PDict [(''name'', PStr ''relevant'')]) ''name'' = Inr (PStr ''relevant'')"
    by (simp add: previous_leaf_def py_getitem_def)
  have stored: "py_getitem (example_result ! 0) ''ids'' = Inr (PList [PInt 2, PInt 4])"
    by code_simp
  have named: "py_getitem (example_batch ! nat 0) ''object_name'' = Inr (PStr ''Facility'')"
    by code_simp
  have cls: "cls_name Facility = ''Facility''"
    by (simp add: Facility_def)
  note inst = relevant_previous [OF leaf, where query = example_batch and e = example_env
      and cls = Facility and g = None and sf = "PList []"]
  from inst [THEN conjunct2, THEN conjunct2, rule_format,
      of None example_result 1 "PStr ''Facility''"] example_batch_run named
  obtain objs' where
    "py_getitem (example_result ! nat 0) ''ids'' = Inr (ids_of objs')"
    "relevant example_env ?state (previous_leaf [PInt 0]) Facility
     = bind_err (get_ids_related_to example_env (cls_name Facility) (PStr ''Facility'')
                   (ids_of objs'))
         (\<lambda>ids. Inr (SqlIdIn (cls_name Facility) ids))"
    by (auto simp: example_batch_def)
  with stored cls have rel: "relevant example_env ?state (previous_leaf [PInt 0]) Facility
       = bind_err (get_ids_related_to example_env ''Facility'' (PStr ''Facility'')
                     (PList [PInt 2, PInt 4]))
           (\<lambda>ids. Inr (SqlIdIn ''Facility'' ids))"
    by simp
  have related: "get_ids_related_to example_env ''Facility'' (PStr ''Facility'')
                   (PList [PInt 2, PInt 4]) = Inr [2, 4]"
    by code_simp
  have own: "get_ids_related_to example_env ''Facility'' (PStr ''__previous__'') (PList [PInt 0])
             = Inr []"
    by code_simp
  have compiled: "build_expression example_env ?state None (previous_leaf [PInt 0]) Facility
                    (PList [])
                  = Inr (Some (SqlIdIn ''Facility'' [2, 4]), None)"
    using relevant_previous [OF leaf, where query = ?state and e = example_env
        and cls = Facility and g = None and sf = "PList []", THEN conjunct2, THEN conjunct1,
        rule_format, OF op]
      rel related
    by simp
  from example_batch_run stored rel related own compiled show ?thesis
    by simp
qed

section \<open>Queries without expression\<close>

text \<open>
  C8. For an object query without expression, \<open>_get_objects\<close> returns \<open>set()\<close>. With a
  falsy limit the loop stores the empty list as \<open>ids\<close>; with any truthy limit, also a
  well-formed one, slicing the set fails and the run ends with the bad-query error about
  the limit, where the specification asks for the empty list.
\<close>

theorem no_expression_with_limit:
  assumes "i < length query"
    and "py_getitem (query ! i) ''object_name'' = Inr name"
    and "py_get (query ! i) ''filters'' (PDict []) = Inr filters"
    and "py_get filters ''expression'' PNone = Inr PNone"
    and "py_get (query ! i) ''limit'' PNone = Inr limit"
  shows "get_objects e query g (query ! i) = Inr (EmptySet, g)
       \<and> (py_truthy limit \<longrightarrow> get_ids_from e i g query = Inl invalid_limit)
       \<and> (\<not> py_truthy limit
            \<longrightarrow> get_ids_from e i g query
                = get_ids_from e (Suc i) g (query[i := set_item (query ! i) ''ids'' (PList [])]))"
proof -
  have empty: "get_objects e query g (query ! i) = Inr (EmptySet, g)"
    using assms(2-4) by (rule get_objects_no_expression)
  have sliced: "py_truthy limit \<Longrightarrow> apply_limit EmptySet limit = Inl invalid_limit"
    by (auto simp: apply_limit_def slice_objects_def bind_err_def split: sum.splits prod.splits)
  have kept: "\<not> py_truthy limit \<Longrightarrow> apply_limit EmptySet limit = Inr EmptySet"
    by (rule apply_limit_falsy)
  show ?thesis
    using assms(1,5) empty sliced kept
    by (auto simp: get_ids_from_step ids_of_def objects_iter_def)
qed

theorem no_expression_with_limit_witness:
  "get_ids example_env None [facility_query [(''limit'', PList [PInt 0, PInt 5])]]
     = Inl invalid_limit
   \<and> resolve example_env None [facility_query [(''limit'', PList [PInt 0, PInt 5])]]
     = Inl invalid_limit
   \<and> get_ids example_env None [facility_query []] = Inr [facility_query [(''ids'', PList [])]]"
proof -
  let ?q = "facility_query [(''limit'', PList [PInt 0, PInt 5])]"
  have "get_ids_from example_env 0 None [?q] = Inl invalid_limit"
    using no_expression_with_limit [of 0 "[?q]" "PStr ''Facility''" "PDict []"
        "PList [PInt 0, PInt 5]" example_env None]
    by (simp add: facility_query_def py_getitem_def py_get_def py_truthy_def)
  moreover have "resolve example_env None [?q] = Inl invalid_limit"
    by code_simp
  moreover have "get_ids example_env None [facility_query []]
                 = Inr [facility_query [(''ids'', PList [])]]"
    by code_simp
  ultimately show ?thesis
    by (simp add: get_ids_def)
qed

end
